theory Spec2Isabelle
  imports Complex_Main "HOL-Library.AList" "HOL-Library.Multiset"
begin

section \<open>Conventions\<close>

text \<open>
  The program is JavaScript/TypeScript. Its numbers are modelled exactly: prices, sizes
  and the timestamps of trades (JSON numbers) are \<^typ>\<open>real\<close>, readings of \<open>Date.now()\<close>
  and bucket starts are \<^typ>\<open>int\<close>, counters and periods are \<^typ>\<open>nat\<close>; rounding
  of doubles and non-finite prices are left out. The one place where the code can produce \<open>NaN\<close> from
  well-formed input is the bucket start of a timeframe whose period is 0 (for example
  \<open>0m\<close>): \<open>Math.floor(x / 0) * 0\<close> is \<open>NaN\<close>. A bucket start is therefore an
  \<^typ>\<open>int option\<close>, with \<open>None\<close> for \<open>NaN\<close>, and the comparisons \<open>!==\<close> and
  \<open>===\<close> on it are written out below.
\<close>

definition js_strict_neq :: "int option \<Rightarrow> int option \<Rightarrow> bool" where
  "js_strict_neq a b = (case (a, b) of (Some x, Some y) \<Rightarrow> x \<noteq> y | _ \<Rightarrow> True)"

definition js_strict_eq :: "int option \<Rightarrow> int option \<Rightarrow> bool" where
  "js_strict_eq a b = (\<not> js_strict_neq a b)"

section \<open>Timeframe labels (test\_websocket\_chart.html, ChartContainer.tsx)\<close>

text \<open>
  \<open>getTimeframePeriod\<close> is the same function in both files:
  \<^verbatim>\<open>
  const match = timeframe.match(/^(\d+)([mhd])$/)
  if (!match) return 60
  const value = parseInt(match[1])
  const unit = match[2]
  switch (unit) {
    case 'm': return value * 60
    case 'h': return value * 3600
    case 'd': return value * 86400
    default: return 60
  }
  \<close>
  The regular expression has no flags, so it matches the whole input: one or more ASCII
  digits followed by exactly one of \<open>m\<close>, \<open>h\<close>, \<open>d\<close>. \<open>timeframe_match\<close> returns the two
  capture groups.
\<close>

definition is_digit :: "char \<Rightarrow> bool" where
  "is_digit c = (c \<in> set ''0123456789'')"

definition is_unit_letter :: "char \<Rightarrow> bool" where
  "is_unit_letter c = (c \<in> set ''mhd'')"

definition timeframe_match :: "string \<Rightarrow> (string \<times> char) option" where
  "timeframe_match s =
     (if s \<noteq> [] \<and> butlast s \<noteq> [] \<and> list_all is_digit (butlast s) \<and> is_unit_letter (last s)
      then Some (butlast s, last s) else None)"

definition digit_value :: "char \<Rightarrow> nat" where
  "digit_value c = of_char c - 48"

text \<open>\<open>parseInt\<close> on the first capture group, a non-empty string of decimal digits.\<close>

definition parseInt :: "string \<Rightarrow> nat" where
  "parseInt ds = foldl (\<lambda>n c. 10 * n + digit_value c) 0 ds"

definition getTimeframePeriod :: "string \<Rightarrow> nat" where
  "getTimeframePeriod tf =
     (case timeframe_match tf of
        None \<Rightarrow> 60
      | Some (digits, u) \<Rightarrow>
          (let v = parseInt digits in
           if u = CHR ''m'' then v * 60
           else if u = CHR ''h'' then v * 3600
           else if u = CHR ''d'' then v * 86400
           else 60))"

text \<open>
  The pattern \<open>^(\d+)([mhd])$\<close> stated as a language, independently of the matcher:
  the strings \<open>ds @ [u]\<close> with \<open>ds\<close> a non-empty digit string and \<open>u\<close> a unit letter.
\<close>

definition matches_pattern :: "string \<Rightarrow> bool" where
  "matches_pattern s =
     (\<exists>ds u. s = ds @ [u] \<and> ds \<noteq> [] \<and> (\<forall>c \<in> set ds. is_digit c)
        \<and> (u = CHR ''m'' \<or> u = CHR ''h'' \<or> u = CHR ''d''))"

definition unit_seconds :: "char \<Rightarrow> nat" where
  "unit_seconds u =
     (if u = CHR ''m'' then 60 else if u = CHR ''h'' then 3600 else 86400)"

section \<open>Candle aggregation (test\_websocket\_chart.html)\<close>

record trade =
  price :: real
  size :: real
  timestamp :: real

record candle =
  timestamp :: "int option"
  "open" :: real
  high :: real
  low :: real
  close :: real
  volume :: real
  trades :: nat

record aggregator =
  timeframe :: string
  currentCandle :: "candle option"
  trades :: "trade list"

text \<open>
  \<open>Math.floor(trade.timestamp / 1000 / candlePeriod) * candlePeriod\<close>;
  \<open>None\<close> is the \<open>NaN\<close> that a period of 0 gives.
\<close>

definition candleTime :: "nat \<Rightarrow> real \<Rightarrow> int option" where
  "candleTime candlePeriod ms =
     (if candlePeriod = 0 then None
      else Some (\<lfloor>ms / 1000 / real candlePeriod\<rfloor> * int candlePeriod))"

definition newCandle :: "int option \<Rightarrow> trade \<Rightarrow> candle" where
  "newCandle ct t =
     \<lparr>candle.timestamp = ct, open = price t, high = price t, low = price t,
      close = price t, volume = trade.size t, trades = 1\<rparr>"

definition updateCandle :: "candle \<Rightarrow> trade \<Rightarrow> candle" where
  "updateCandle c t =
     c\<lparr>high := max (high c) (price t),
       low := min (low c) (price t),
       close := price t,
       volume := volume c + trade.size t,
       candle.trades := candle.trades c + 1\<rparr>"

definition aggregateTrade :: "aggregator \<Rightarrow> trade \<Rightarrow> aggregator" where
  "aggregateTrade a t =
     (let candlePeriod = getTimeframePeriod (timeframe a);
          ct = candleTime candlePeriod (trade.timestamp t)
      in case currentCandle a of
           None \<Rightarrow> a\<lparr>currentCandle := Some (newCandle ct t)\<rparr>
         | Some c \<Rightarrow>
             if js_strict_neq (candle.timestamp c) ct
             then a\<lparr>currentCandle := Some (newCandle ct t)\<rparr>
             else a\<lparr>currentCandle := Some (updateCandle c t)\<rparr>)"

text \<open>
  \<open>aggregators\<close> is a JavaScript \<open>Map\<close> from timeframe label to aggregator, iterated in
  insertion order: an association list. \<open>subscribe\<close> (re)initialises the three
  aggregators of the test page.
\<close>

type_synonym aggregators = "(string \<times> aggregator) list"

definition initAggregators :: "aggregators \<Rightarrow> aggregators" where
  "initAggregators ags =
     fold (\<lambda>tf m. AList.update tf \<lparr>timeframe = tf, currentCandle = None, aggregator.trades = []\<rparr> m)
       [''1m'', ''5m'', ''15m''] ags"

text \<open>
  \<open>updateCandleDisplay\<close> rebuilds the candle panel: one row per aggregator that has a
  live candle, showing the timeframe and that candle. The rows are the only output of
  \<open>processTrades\<close>.
\<close>

definition updateCandleDisplay :: "aggregators \<Rightarrow> (string \<times> candle) list" where
  "updateCandleDisplay ags =
     List.map_filter (\<lambda>(tf, a). map_option (\<lambda>c. (tf, c)) (currentCandle a)) ags"

definition aggregateAll :: "aggregators \<Rightarrow> trade \<Rightarrow> aggregators" where
  "aggregateAll ags t = map (\<lambda>(tf, a). (tf, aggregateTrade a t)) ags"

definition processTrades :: "aggregators \<Rightarrow> trade list \<Rightarrow> aggregators \<times> (string \<times> candle) list" where
  "processTrades ags ts =
     (let ags' = foldl aggregateAll ags ts in (ags', updateCandleDisplay ags'))"

text \<open>The messages of a session, one \<open>processTrades\<close> call each; the outputs in order.\<close>

fun processMessages :: "aggregators \<Rightarrow> trade list list \<Rightarrow> (string \<times> candle) list list" where
  "processMessages ags [] = []"
| "processMessages ags (m # ms) =
     (case processTrades ags m of (ags', rows) \<Rightarrow> rows # processMessages ags' ms)"

text \<open>
  The vocabulary of one bucket: the bucket a trade falls into for an
  aggregator, an aggregator that holds no candle of bucket \<open>b\<close>, and the candle that
  summarises a non-empty list of trades of bucket \<open>b\<close>.
\<close>

definition bucket_of :: "aggregator \<Rightarrow> trade \<Rightarrow> int option" where
  "bucket_of a t = candleTime (getTimeframePeriod (timeframe a)) (trade.timestamp t)"

definition fresh_for :: "aggregator \<Rightarrow> int \<Rightarrow> bool" where
  "fresh_for a b =
     (case currentCandle a of
        None \<Rightarrow> True
      | Some c \<Rightarrow> js_strict_neq (candle.timestamp c) (Some b))"

definition summary :: "int \<Rightarrow> trade list \<Rightarrow> candle" where
  "summary b ts =
     \<lparr>candle.timestamp = Some b,
      candle.open = trade.price (hd ts),
      candle.high = Max (trade.price ` set ts),
      candle.low = Min (trade.price ` set ts),
      candle.close = trade.price (last ts),
      candle.volume = sum_list (map trade.size ts),
      candle.trades = length ts\<rparr>"

text \<open>The aggregator of the worked example: timeframe \<open>1m\<close>, no live candle yet.\<close>

definition agg1m :: aggregator where
  "agg1m = \<lparr>timeframe = ''1m'', currentCandle = None, aggregator.trades = []\<rparr>"


section \<open>Rate-limited price updates (ChartContainer.tsx)\<close>

text \<open>
  The chart component keeps the latest best bid/ask in \<open>priceUpdateQueueRef\<close>, one
  timeout handle in \<open>priceUpdateTimerRef\<close> and the clock reading of the last completed
  chart update in \<open>lastUpdateTimeRef\<close>. \<open>Date.now()\<close> is an integer number of
  milliseconds. \<open>priceUpdateTimer\<close> is the due time of the timeout that is pending, if
  one is: \<open>clearTimeout\<close> followed by \<open>setTimeout\<close> replaces it, and a timeout that has
  run is no longer pending. A bar loaded from the history has no \<open>volume\<close> field, the
  bars made here have one.
\<close>

record BestBidAsk =
  symbol :: string
  bid :: real
  ask :: real

record bar =
  time :: "int option"
  "open" :: real
  high :: real
  low :: real
  close :: real
  volume :: "real option"

record volume_bar =
  time :: "int option"
  "value" :: real
  color :: string

record chart =
  symbol :: string
  selectedTimeframe :: string
  candleSeries :: bool
  volumeSeries :: bool
  lastCandle :: "(int option \<times> bar) option"
  priceUpdateQueue :: "BestBidAsk option"
  priceUpdateTimer :: "int option"
  lastUpdateTime :: int

text \<open>The calls made on the two chart series: what the consumer of the feed receives.\<close>

datatype chart_call = CandleUpdate bar | VolumeUpdate volume_bar

text \<open>
  \<open>update\<close> of a chart series can throw; the \<open>catch\<close> of \<open>processPriceUpdate\<close> then
  leaves the queue and the last update time as they are. Which call throws, if any, is
  the environment's choice.
\<close>

datatype chart_throw = NoThrow | CandleUpdateThrows | VolumeUpdateThrows

text \<open>
  The price taken from a best bid/ask: the mid price, or the bid or the ask when the mid
  price is not positive; \<open>None\<close> is the early return "No valid price available".
\<close>

definition lastPrice :: "BestBidAsk \<Rightarrow> real option" where
  "lastPrice bidAsk =
     (let px = (bid bidAsk + ask bidAsk) / 2 in
      if px \<le> 0 then
        (let px' = (if bid bidAsk > 0 then bid bidAsk
                       else if ask bidAsk > 0 then ask bidAsk else 0)
         in if px' \<le> 0 then None else Some px')
      else Some px)"

text \<open>\<open>Math.floor(now / timeframePeriod) * timeframePeriod\<close> on whole seconds.\<close>

definition currentCandleTime :: "nat \<Rightarrow> int \<Rightarrow> int option" where
  "currentCandleTime timeframePeriod now =
     (if timeframePeriod = 0 then None
      else Some ((now div int timeframePeriod) * int timeframePeriod))"

text \<open>
  The end of the \<open>try\<close> block, shared by its two branches: update the candle series,
  store the bar in \<open>lastCandleRef\<close>, update the volume series if there is one, then stamp
  \<open>lastUpdateTimeRef\<close> and clear the queue.
\<close>

definition commitUpdate ::
  "int \<Rightarrow> chart_throw \<Rightarrow> chart \<Rightarrow> int option \<Rightarrow> bar \<Rightarrow> volume_bar \<Rightarrow> chart \<times> chart_call list" where
  "commitUpdate nowMs thr st t b vb =
     (if thr = CandleUpdateThrows then (st, [])
      else
        (let st1 = st\<lparr>lastCandle := Some (t, b)\<rparr> in
         if volumeSeries st then
           (if thr = VolumeUpdateThrows then (st1, [CandleUpdate b])
            else (st1\<lparr>lastUpdateTime := nowMs, priceUpdateQueue := None\<rparr>,
                  [CandleUpdate b, VolumeUpdate vb]))
         else (st1\<lparr>lastUpdateTime := nowMs, priceUpdateQueue := None\<rparr>, [CandleUpdate b])))"

text \<open>
  The two branches of the \<open>try\<close> block differ in the bar, the time stored with it and
  the volume bar: the last bar moved to the new price while the clock is still in its
  period, a fresh bar otherwise.
\<close>

definition nextBar ::
  "chart \<Rightarrow> int \<Rightarrow> real \<Rightarrow> int option \<Rightarrow> bar \<Rightarrow> int option \<times> bar \<times> volume_bar" where
  "nextBar st nowMs px lastTime lastBar =
     (let now = nowMs div 1000;
          timeframePeriod = getTimeframePeriod (selectedTimeframe st);
          cct = currentCandleTime timeframePeriod now
      in if js_strict_eq lastTime cct then
           (let updatedCandle =
                  lastBar\<lparr>bar.close := px,
                          bar.high := max (bar.high lastBar) px,
                          bar.low := min (bar.low lastBar) px\<rparr>
            in (lastTime, updatedCandle,
                \<lparr>volume_bar.time = cct,
                 value = (case bar.volume updatedCandle of None \<Rightarrow> 0 | Some v \<Rightarrow> v),
                 color = (if px \<ge> bar.open updatedCandle
                          then ''#00d39533'' else ''#dd585833'')\<rparr>))
         else
           (let newBar =
                  \<lparr>bar.time = cct, open = px, high = px, low = px, close = px,
                   volume = Some 0\<rparr>
            in (cct, newBar,
                \<lparr>volume_bar.time = cct, value = 0, color = ''#00d39533''\<rparr>)))"

definition processPriceUpdate :: "int \<Rightarrow> chart_throw \<Rightarrow> chart \<Rightarrow> chart \<times> chart_call list" where
  "processPriceUpdate nowMs thr st =
     (case priceUpdateQueue st of
        None \<Rightarrow> (st, [])
      | Some bidAsk \<Rightarrow>
          if \<not> candleSeries st then (st, [])
          else
            (case lastCandle st of
               None \<Rightarrow> (st, [])
             | Some (lastTime, lastBar) \<Rightarrow>
                 (case lastPrice bidAsk of
                    None \<Rightarrow> (st, [])
                  | Some px \<Rightarrow>
                      (case nextBar st nowMs px lastTime lastBar of
                         (t, b, vb) \<Rightarrow> commitUpdate nowMs thr st t b vb))))"

definition queuePriceUpdate :: "int \<Rightarrow> BestBidAsk \<Rightarrow> chart \<Rightarrow> chart" where
  "queuePriceUpdate nowMs bidAsk st =
     (if BestBidAsk.symbol bidAsk \<noteq> chart.symbol st then st
      else
        (let timeSinceLastUpdate = nowMs - lastUpdateTime st;
             delay = max 0 (250 - timeSinceLastUpdate)
         in st\<lparr>priceUpdateQueue := Some bidAsk,
                priceUpdateTimer := Some (nowMs + delay)\<rparr>))"

text \<open>
  A run of the component is a sequence of events, each with the reading of \<open>Date.now()\<close>
  at which it happens: a best bid/ask arrives, or the timeout callback runs. A timeout
  that was cleared or has run does not run (again): a \<open>TimerFires\<close> event with no
  timeout pending changes nothing. The callback itself never compares the clock with the
  due time: whenever it runs, \<open>processPriceUpdate\<close> delivers what is queued.
\<close>

datatype chart_event = PriceUpdate int BestBidAsk | TimerFires int chart_throw

fun eventTime :: "chart_event \<Rightarrow> int" where
  "eventTime (PriceUpdate nowMs bidAsk) = nowMs"
| "eventTime (TimerFires nowMs thr) = nowMs"

fun chartStep :: "chart \<Rightarrow> chart_event \<Rightarrow> chart \<times> chart_call list" where
  "chartStep st (PriceUpdate nowMs bidAsk) = (queuePriceUpdate nowMs bidAsk st, [])"
| "chartStep st (TimerFires nowMs thr) =
     (case priceUpdateTimer st of
        None \<Rightarrow> (st, [])
      | Some due \<Rightarrow> processPriceUpdate nowMs thr (st\<lparr>priceUpdateTimer := None\<rparr>))"

text \<open>The deliveries of a run: each bar given to the candle series, with the clock reading.\<close>

fun candleUpdates :: "int \<Rightarrow> chart_call list \<Rightarrow> (int \<times> bar) list" where
  "candleUpdates nowMs [] = []"
| "candleUpdates nowMs (CandleUpdate b # cs) = (nowMs, b) # candleUpdates nowMs cs"
| "candleUpdates nowMs (VolumeUpdate vb # cs) = candleUpdates nowMs cs"

fun chartRun :: "chart \<Rightarrow> chart_event list \<Rightarrow> (int \<times> bar) list" where
  "chartRun st [] = []"
| "chartRun st (e # es) =
     (case chartStep st e of
        (st', calls) \<Rightarrow> candleUpdates (eventTime e) calls @ chartRun st' es)"

definition volumeThrows :: "chart_event \<Rightarrow> bool" where
  "volumeThrows e = (case e of TimerFires nowMs thr \<Rightarrow> thr = VolumeUpdateThrows | _ \<Rightarrow> False)"

text \<open>
  Whether the timeout callbacks of a run are on time is a matter of the browser, not of
  the component: an event is on time if it is not a callback running before the due time
  of the pending timeout, as read by \<open>Date.now()\<close>, and a run is punctual if each of
  its events is on time in the state it happens in.
\<close>

definition onTime :: "chart \<Rightarrow> chart_event \<Rightarrow> bool" where
  "onTime st e =
     (case e of
        PriceUpdate nowMs bidAsk \<Rightarrow> True
      | TimerFires nowMs thr \<Rightarrow>
          (case priceUpdateTimer st of None \<Rightarrow> True | Some due \<Rightarrow> due \<le> nowMs))"

fun punctual :: "chart \<Rightarrow> chart_event list \<Rightarrow> bool" where
  "punctual st [] = True"
| "punctual st (e # es) = (onTime st e \<and> punctual (fst (chartStep st e)) es)"

text \<open>
  Every pending timeout is due no earlier than 250 ms after the last completed update.
\<close>

definition timerRespectsInterval :: "chart \<Rightarrow> bool" where
  "timerRespectsInterval st =
     (case priceUpdateTimer st of
        None \<Rightarrow> True
      | Some due \<Rightarrow> lastUpdateTime st + 250 \<le> due)"

text \<open>Any two deliveries of the list, in order, are at least 250 ms apart.\<close>

definition spaced250 :: "(int \<times> bar) list \<Rightarrow> bool" where
  "spaced250 ds = sorted_wrt (\<lambda>d d'. fst d + 250 \<le> fst d') ds"

section \<open>Health check (ChartContainer.tsx)\<close>

text \<open>
  The interval callback of \<open>startHealthCheck\<close>, run every 5000 ms. \<open>ws\<close> is the
  order-book WebSocket singleton, whose class is not part of the sources: what
  \<open>ws.getLastPrice(symbol)\<close> and \<open>ws.getBestBidAsk(symbol)\<close> return are parameters, and
  the calls made on \<open>ws\<close> are results. The component calls \<open>connect\<close>,
  \<open>subscribeToBestBidAsk\<close> and \<open>unsubscribeFromBestBidAsk\<close> on it; \<open>disconnect\<close> is the
  call its cleanup leaves out on purpose.
\<close>

datatype ws_call =
    Connect
  | Disconnect
  | SubscribeToBestBidAsk string
  | UnsubscribeFromBestBidAsk string

text \<open>
  The result: the chart state, the calls made on \<open>ws\<close>, and the delay of the timeout set
  for the resubscription, if one is set.
\<close>

definition healthCheck ::
  "int \<Rightarrow> bool \<Rightarrow> real option \<Rightarrow> BestBidAsk option \<Rightarrow> chart
     \<Rightarrow> chart \<times> ws_call list \<times> nat option" where
  "healthCheck nowMs isSubscribed cachedPrice cachedBidAsk st =
     (let timeSinceLastUpdate = nowMs - lastUpdateTime st in
      if timeSinceLastUpdate > 10000 \<and> isSubscribed then
        (let st' = (case cachedPrice of
                      None \<Rightarrow> st
                    | Some currentPrice \<Rightarrow>
                        (case cachedBidAsk of
                           None \<Rightarrow> st
                         | Some bidAsk \<Rightarrow> queuePriceUpdate nowMs bidAsk st))
         in if timeSinceLastUpdate > 30000
            then (st', [UnsubscribeFromBestBidAsk (chart.symbol st)], Some 1000)
            else (st', [], None))
      else (st, [], None))"

text \<open>The callback of that timeout, one second later.\<close>

definition resubscribeTimeout :: "bool \<Rightarrow> string \<Rightarrow> ws_call list" where
  "resubscribeTimeout isSubscribed s =
     (if isSubscribed then [SubscribeToBestBidAsk s] else [])"

text \<open>A chart that is ready, showing a one-hour bar, with nothing queued.\<close>

definition readyChart :: chart where
  "readyChart =
     \<lparr>chart.symbol = ''BTC-PERP'', selectedTimeframe = ''1h'', candleSeries = True,
      volumeSeries = True,
      lastCandle = Some (Some 0, \<lparr>bar.time = Some 0, open = 100, high = 100, low = 100,
                                  close = 100, volume = None\<rparr>),
      priceUpdateQueue = None, priceUpdateTimer = None, lastUpdateTime = 0\<rparr>"

definition quote :: "real \<Rightarrow> BestBidAsk" where
  "quote p = \<lparr>BestBidAsk.symbol = ''BTC-PERP'', bid = p, ask = p\<rparr>"


section \<open>Market list subscriptions (MarketList.tsx)\<close>

text \<open>
  A ticker as the component uses it: its symbol and
  \<open>parseFloat(ticker.quote_volume)\<close>, with \<open>None\<close> for the \<open>NaN\<close> of a missing or
  unparsable volume; \<open>volumeOf\<close> is \<open>parseFloat(quote_volume) || 0\<close>.
  \<open>Array.prototype.sort\<close> is stable, and so is \<open>sort_key\<close>; the comparator
  \<open>volumeB - volumeA\<close> sorts by descending volume.
\<close>

record ticker =
  symbol :: string
  quote_volume :: "real option"

definition volumeOf :: "ticker \<Rightarrow> real" where
  "volumeOf t = (case quote_volume t of None \<Rightarrow> 0 | Some v \<Rightarrow> v)"

definition sortedByVolume :: "ticker list \<Rightarrow> ticker list" where
  "sortedByVolume tickers = sort_key (\<lambda>t. - volumeOf t) tickers"

definition topMarkets :: "ticker list \<Rightarrow> ticker list" where
  "topMarkets tickers = take 30 (sortedByVolume tickers)"

definition topMarketSymbols :: "ticker list \<Rightarrow> string list" where
  "topMarketSymbols tickers = map ticker.symbol (topMarkets tickers)"

text \<open>
  \<open>selectedSymbol\<close> is falsy when it is \<open>null\<close>, \<open>undefined\<close> (\<open>None\<close>) or the empty
  string.
\<close>

definition selectedSymbolArray :: "string option \<Rightarrow> ticker list \<Rightarrow> string list" where
  "selectedSymbolArray selectedSymbol tickers =
     (case selectedSymbol of
        None \<Rightarrow> []
      | Some s \<Rightarrow>
          if s = [] then []
          else
            (let isInTopMarkets = list_ex (\<lambda>t. ticker.symbol t = s) (topMarkets tickers)
             in if isInTopMarkets then [] else [s]))"

text \<open>
  The symbols of the two \<open>useWebSocketSubscription('ticker', ...)\<close> calls of the
  component.
\<close>

definition subscribedSymbols :: "string option \<Rightarrow> ticker list \<Rightarrow> string list" where
  "subscribedSymbols selectedSymbol tickers =
     topMarketSymbols tickers @ selectedSymbolArray selectedSymbol tickers"

text \<open>Thirty-two tickers, not in order of volume.\<close>

definition exampleTickers :: "ticker list" where
  "exampleTickers =
     [\<lparr>ticker.symbol = ''ETH-PERP'', quote_volume = Some 31000\<rparr>,
      \<lparr>ticker.symbol = ''BTC-PERP'', quote_volume = Some 32000\<rparr>,
      \<lparr>ticker.symbol = ''XRP-PERP'', quote_volume = Some 29000\<rparr>,
      \<lparr>ticker.symbol = ''SOL-PERP'', quote_volume = Some 30000\<rparr>,
      \<lparr>ticker.symbol = ''DOGE-PERP'', quote_volume = Some 27000\<rparr>,
      \<lparr>ticker.symbol = ''ADA-PERP'', quote_volume = Some 28000\<rparr>,
      \<lparr>ticker.symbol = ''DOT-PERP'', quote_volume = Some 25000\<rparr>,
      \<lparr>ticker.symbol = ''AVAX-PERP'', quote_volume = Some 26000\<rparr>,
      \<lparr>ticker.symbol = ''LTC-PERP'', quote_volume = Some 23000\<rparr>,
      \<lparr>ticker.symbol = ''LINK-PERP'', quote_volume = Some 24000\<rparr>,
      \<lparr>ticker.symbol = ''UNI-PERP'', quote_volume = Some 21000\<rparr>,
      \<lparr>ticker.symbol = ''BCH-PERP'', quote_volume = Some 22000\<rparr>,
      \<lparr>ticker.symbol = ''ETC-PERP'', quote_volume = Some 19000\<rparr>,
      \<lparr>ticker.symbol = ''ATOM-PERP'', quote_volume = Some 20000\<rparr>,
      \<lparr>ticker.symbol = ''APT-PERP'', quote_volume = Some 17000\<rparr>,
      \<lparr>ticker.symbol = ''FIL-PERP'', quote_volume = Some 18000\<rparr>,
      \<lparr>ticker.symbol = ''OP-PERP'', quote_volume = Some 15000\<rparr>,
      \<lparr>ticker.symbol = ''ARB-PERP'', quote_volume = Some 16000\<rparr>,
      \<lparr>ticker.symbol = ''INJ-PERP'', quote_volume = Some 13000\<rparr>,
      \<lparr>ticker.symbol = ''NEAR-PERP'', quote_volume = Some 14000\<rparr>,
      \<lparr>ticker.symbol = ''TIA-PERP'', quote_volume = Some 11000\<rparr>,
      \<lparr>ticker.symbol = ''SUI-PERP'', quote_volume = Some 12000\<rparr>,
      \<lparr>ticker.symbol = ''RUNE-PERP'', quote_volume = Some 9000\<rparr>,
      \<lparr>ticker.symbol = ''SEI-PERP'', quote_volume = Some 10000\<rparr>,
      \<lparr>ticker.symbol = ''MKR-PERP'', quote_volume = Some 7000\<rparr>,
      \<lparr>ticker.symbol = ''AAVE-PERP'', quote_volume = Some 8000\<rparr>,
      \<lparr>ticker.symbol = ''CRV-PERP'', quote_volume = Some 5000\<rparr>,
      \<lparr>ticker.symbol = ''SNX-PERP'', quote_volume = Some 6000\<rparr>,
      \<lparr>ticker.symbol = ''GMX-PERP'', quote_volume = Some 3000\<rparr>,
      \<lparr>ticker.symbol = ''LDO-PERP'', quote_volume = Some 4000\<rparr>,
      \<lparr>ticker.symbol = ''PEPE-PERP'', quote_volume = Some 1000\<rparr>,
      \<lparr>ticker.symbol = ''DYDX-PERP'', quote_volume = Some 2000\<rparr>]"

section \<open>Subscription registry\<close>

text \<open>
  Modelled from the spec: the Subscription Registry (section 4.2) is not part of the
  sources; only its callers and the reports of the limit being hit are. A subscription is
  keyed by (channel, symbol) and carries a reference count; the registry records the
  upstream commands it has issued, oldest first. \<open>subscribe\<close> returns the registry after
  the call and either the new reference count or the error.
\<close>

type_synonym topic = "string \<times> string"

datatype registry_error = SubscriptionLimitExceeded

datatype upstream_command = SubscribeCommand topic | UnsubscribeCommand topic

record registry =
  subscriptions :: "(topic \<times> nat) list"
  sent :: "upstream_command list"

definition emptyRegistry :: registry where
  "emptyRegistry = \<lparr>subscriptions = [], sent = []\<rparr>"

definition activeCount :: "registry \<Rightarrow> nat" where
  "activeCount r = length (subscriptions r)"

text \<open>
  Modelled from the spec: \<open>subscribe\<close>. "If the (channel,symbol) key exists, increment
  refcount and return without issuing an upstream command. If it does not exist and
  activeCount() >= cap, fail with a SubscriptionLimitExceeded error. Otherwise create the
  entry with refcount 1 and issue exactly one upstream subscribe command."
\<close>

definition subscribe :: "nat \<Rightarrow> topic \<Rightarrow> registry \<Rightarrow> registry \<times> (registry_error + nat)" where
  "subscribe cap k r =
     (case map_of (subscriptions r) k of
        Some n \<Rightarrow> (r\<lparr>subscriptions := AList.update k (Suc n) (subscriptions r)\<rparr>, Inr (Suc n))
      | None \<Rightarrow>
          if cap \<le> activeCount r then (r, Inl SubscriptionLimitExceeded)
          else (r\<lparr>subscriptions := subscriptions r @ [(k, 1)],
                  sent := sent r @ [SubscribeCommand k]\<rparr>, Inr 1))"

text \<open>
  Modelled from the spec: \<open>unsubscribe\<close>. "Decrement refcount; if it reaches 0, remove
  the entry and issue exactly one upstream unsubscribe command. Calling unsubscribe on a
  non-existent key is a no-op."
\<close>

definition unsubscribe :: "topic \<Rightarrow> registry \<Rightarrow> registry \<times> nat" where
  "unsubscribe k r =
     (case map_of (subscriptions r) k of
        None \<Rightarrow> (r, 0)
      | Some n \<Rightarrow>
          if n \<le> 1
          then (r\<lparr>subscriptions := AList.delete k (subscriptions r),
                  sent := sent r @ [UnsubscribeCommand k]\<rparr>, 0)
          else (r\<lparr>subscriptions := AList.update k (n - 1) (subscriptions r)\<rparr>, n - 1))"

datatype registry_call = Subscribe topic | Unsubscribe topic

fun registryStep :: "nat \<Rightarrow> registry \<Rightarrow> registry_call \<Rightarrow> registry" where
  "registryStep cap r (Subscribe k) = fst (subscribe cap k r)"
| "registryStep cap r (Unsubscribe k) = fst (unsubscribe k r)"

definition registryRun :: "nat \<Rightarrow> registry \<Rightarrow> registry_call list \<Rightarrow> registry" where
  "registryRun cap r calls = foldl (registryStep cap) r calls"

text \<open>\<open>n\<close> calls of \<open>subscribe\<close> for the same key, one per consumer; the results in order.\<close>

fun subscribeTimes ::
  "nat \<Rightarrow> topic \<Rightarrow> nat \<Rightarrow> registry \<Rightarrow> registry \<times> (registry_error + nat) list" where
  "subscribeTimes cap k 0 r = (r, [])"
| "subscribeTimes cap k (Suc n) r =
     (case subscribe cap k r of
        (r', res) \<Rightarrow>
          (case subscribeTimes cap k n r' of (r'', rs) \<Rightarrow> (r'', res # rs)))"

section \<open>Reconnection with backoff\<close>

text \<open>
  Modelled from the spec: the reconnect policy of the Feed Connection (section 4.1) is
  not part of the sources; the architecture report only lists "Exponential backoff:
  1s * 2^n (max 30s)" and "Max attempts: 5" for each WebSocket class. Times are in
  milliseconds; the maximum number of consecutive failures is a parameter.
\<close>

datatype ConnectionState = Disconnected | Connecting | Connected | Reconnecting | Failed

record feed_connection =
  state :: ConnectionState
  attempt :: nat

definition backoffMillis :: "nat \<Rightarrow> nat" where
  "backoffMillis n = min 30000 (1000 * 2 ^ n)"

text \<open>
  Modelled from the spec: one reconnect cycle, entered on an unexpected close, on a
  heartbeat timeout and when a retry fails. "Transition to Reconnecting, wait
  min(30s, 1s * 2^attempt), retry, incrementing attempt. After a configured maximum
  consecutive-failure count, transition to Failed and stop auto-retrying." The result is
  the connection and the wait before the retry, \<open>None\<close> when there is no retry.
\<close>

definition reconnectCycle :: "nat \<Rightarrow> feed_connection \<Rightarrow> feed_connection \<times> nat option" where
  "reconnectCycle maxAttempts c =
     (if maxAttempts \<le> attempt c then (c\<lparr>state := Failed\<rparr>, None)
      else (c\<lparr>state := Reconnecting, attempt := Suc (attempt c)\<rparr>,
            Some (backoffMillis (attempt c))))"

text \<open>Modelled from the spec: "reset attempt to 0 on a successful reconnect".\<close>

definition reconnectSucceeded :: "feed_connection \<Rightarrow> feed_connection" where
  "reconnectSucceeded c = c\<lparr>state := Connected, attempt := 0\<rparr>"

text \<open>The connection after \<open>n\<close> cycles whose retries all failed.\<close>

fun afterFailures :: "nat \<Rightarrow> nat \<Rightarrow> feed_connection \<Rightarrow> feed_connection" where
  "afterFailures maxAttempts 0 c = c"
| "afterFailures maxAttempts (Suc n) c =
     fst (reconnectCycle maxAttempts (afterFailures maxAttempts n c))"

section \<open>Properties of timeframe labels\<close>

lemma timeframe_match_None_iff: "timeframe_match s = None \<longleftrightarrow> \<not> matches_pattern s"
proof
  assume h: "timeframe_match s = None"
  show "\<not> matches_pattern s"
  proof
    assume "matches_pattern s"
    then obtain ds u where "s = ds @ [u]" "ds \<noteq> []" "\<forall>c \<in> set ds. is_digit c"
      "u = CHR ''m'' \<or> u = CHR ''h'' \<or> u = CHR ''d''"
      unfolding matches_pattern_def by blast
    then have "timeframe_match s = Some (ds, u)"
      by (auto simp: timeframe_match_def is_unit_letter_def list_all_iff)
    with h show False by simp
  qed
next
  assume h: "\<not> matches_pattern s"
  show "timeframe_match s = None"
  proof (rule ccontr)
    assume "timeframe_match s \<noteq> None"
    then have a: "s \<noteq> []" "butlast s \<noteq> []" "list_all is_digit (butlast s)"
      "is_unit_letter (last s)"
      by (auto simp: timeframe_match_def split: if_splits)
    have "s = butlast s @ [last s]" using a(1) by simp
    moreover have "last s = CHR ''m'' \<or> last s = CHR ''h'' \<or> last s = CHR ''d''"
      using a(4) by (auto simp: is_unit_letter_def)
    moreover have "\<forall>c \<in> set (butlast s). is_digit c"
      using a(3) by (simp add: list_all_iff)
    ultimately have "matches_pattern s"
      unfolding matches_pattern_def using a(2) by blast
    with h show False by simp
  qed
qed

lemma timeframe_match_append:
  "ds \<noteq> [] \<Longrightarrow> \<forall>c \<in> set ds. is_digit c \<Longrightarrow> is_unit_letter u \<Longrightarrow>
   timeframe_match (ds @ [u]) = Some (ds, u)"
  by (simp add: timeframe_match_def list_all_iff)

lemma is_unit_letter_cases:
  "is_unit_letter u \<longleftrightarrow> u = CHR ''m'' \<or> u = CHR ''h'' \<or> u = CHR ''d''"
  by (auto simp: is_unit_letter_def)

lemma getTimeframePeriod_label:
  assumes "ds \<noteq> []" "\<forall>c \<in> set ds. is_digit c" "is_unit_letter u"
  shows "getTimeframePeriod (ds @ [u]) = parseInt ds * unit_seconds u"
proof -
  have m: "timeframe_match (ds @ [u]) = Some (ds, u)"
    using assms by (rule timeframe_match_append)
  have p: "getTimeframePeriod (ds @ [u]) =
        (if u = CHR ''m'' then parseInt ds * 60
           else if u = CHR ''h'' then parseInt ds * 3600
           else if u = CHR ''d'' then parseInt ds * 86400
           else 60)"
    by (simp add: getTimeframePeriod_def m)
  from assms(3) have "u = CHR ''m'' \<or> u = CHR ''h'' \<or> u = CHR ''d''"
    by (simp only: is_unit_letter_cases)
  then show ?thesis unfolding p unit_seconds_def
    by auto
qed

lemma getTimeframePeriod_unmatched: "timeframe_match tf = None \<Longrightarrow> getTimeframePeriod tf = 60"
  by (simp add: getTimeframePeriod_def)

text \<open>\<open>parseInt\<close> reads a digit string as a decimal numeral.\<close>

lemma parseInt_snoc: "parseInt (ds @ [c]) = 10 * parseInt ds + digit_value c"
  by (simp add: parseInt_def)

lemma configured_periods:
  "map getTimeframePeriod [''1m'', ''5m'', ''15m'', ''1h'', ''4h'', ''1d'']
     = [60, 300, 900, 3600, 14400, 86400]"
  by (simp add: getTimeframePeriod_def timeframe_match_def is_digit_def is_unit_letter_def
      parseInt_def digit_value_def)

lemma period_1m: "getTimeframePeriod ''1m'' = 60"
  using configured_periods by simp

lemma period_15m: "getTimeframePeriod ''15m'' = 900"
  using configured_periods by simp

section \<open>Properties of candle aggregation\<close>

lemma aggregateTrade_timestamp:
  "map_option candle.timestamp (currentCandle (aggregateTrade a t)) = Some (bucket_of a t)"
proof (cases "currentCandle a")
  case None
  then show ?thesis by (simp add: aggregateTrade_def newCandle_def bucket_of_def)
next
  case (Some c)
  show ?thesis
  proof (cases "js_strict_neq (candle.timestamp c) (bucket_of a t)")
    case True
    then show ?thesis
      using Some by (simp add: aggregateTrade_def newCandle_def bucket_of_def)
  next
    case False
    then have "candle.timestamp c = bucket_of a t"
      by (auto simp: js_strict_neq_def split: option.splits)
    then show ?thesis
      using Some False by (simp add: aggregateTrade_def updateCandle_def bucket_of_def)
  qed
qed

text \<open>
  C5. The bucket start given to a trade is
  \<open>floor(timestampSeconds / periodSeconds) * periodSeconds\<close>, with
  \<open>timestampSeconds = trade.timestamp / 1000\<close> and \<open>periodSeconds\<close> the numeric prefix of
  the label times 60 for \<open>m\<close>, 3600 for \<open>h\<close>, 86400 for \<open>d\<close>. This holds for every label
  of the pattern whose numeric prefix is not zero, so for each configured timeframe
  \<open>1m, 5m, 15m, 1h, 4h, 1d\<close>, whose periods are listed. (A zero prefix makes the
  quotient a division by zero, which the code turns into \<open>NaN\<close>.)
\<close>

theorem C5_bucket_start:
  assumes "ds \<noteq> []" and "\<forall>c \<in> set ds. is_digit c"
    and "u = CHR ''m'' \<or> u = CHR ''h'' \<or> u = CHR ''d''"
    and "timeframe a = ds @ [u]" and "0 < parseInt ds"
  shows "getTimeframePeriod (timeframe a)
           = parseInt ds * (if u = CHR ''m'' then 60 else if u = CHR ''h'' then 3600 else 86400)
       \<and> map_option candle.timestamp (currentCandle (aggregateTrade a t))
           = Some (Some (\<lfloor>(trade.timestamp t / 1000) / real (getTimeframePeriod (timeframe a))\<rfloor>
                           * int (getTimeframePeriod (timeframe a))))
       \<and> map getTimeframePeriod [''1m'', ''5m'', ''15m'', ''1h'', ''4h'', ''1d'']
           = [60, 300, 900, 3600, 14400, 86400]"
proof -
  have u: "is_unit_letter u" using assms(3) by (simp add: is_unit_letter_cases)
  have p: "getTimeframePeriod (timeframe a) = parseInt ds * unit_seconds u"
    unfolding assms(4) using assms(1,2) u by (rule getTimeframePeriod_label)
  have "0 < unit_seconds u" by (simp add: unit_seconds_def)
  then have pos: "0 < getTimeframePeriod (timeframe a)" using p assms(5) by simp
  have "bucket_of a t = Some (\<lfloor>(trade.timestamp t / 1000) / real (getTimeframePeriod (timeframe a))\<rfloor>
                           * int (getTimeframePeriod (timeframe a)))"
    using pos by (simp add: bucket_of_def candleTime_def)
  then show ?thesis
    using p aggregateTrade_timestamp[of a t] configured_periods
    by (simp add: unit_seconds_def)
qed

theorem C5_bucket_start_witness:
  "''15'' \<noteq> [] \<and> list_all is_digit ''15'' \<and> 0 < parseInt ''15''
   \<and> getTimeframePeriod ''15m'' = 900
   \<and> map_option candle.timestamp (currentCandle (aggregateTrade
          \<lparr>timeframe = ''15m'', currentCandle = None, aggregator.trades = []\<rparr>
          \<lparr>price = 10, size = 1, timestamp = 1000000\<rparr>)) = Some (Some 900)"
proof -
  have h12: "''15'' \<noteq> []" "\<forall>c \<in> set ''15''. is_digit c"
    by (simp_all add: is_digit_def)
  have h3: "CHR ''m'' = CHR ''m'' \<or> CHR ''m'' = CHR ''h'' \<or> CHR ''m'' = CHR ''d''" by simp
  have h4: "timeframe \<lparr>timeframe = ''15m'', currentCandle = None, aggregator.trades = []\<rparr>
              = ''15'' @ [CHR ''m'']" by simp
  have h5: "0 < parseInt ''15''" by (simp add: parseInt_def digit_value_def)
  have fl: "\<lfloor>(1000000::real) / 1000 / 900\<rfloor> = 1" by (simp add: floor_eq_iff)
  show ?thesis
    using C5_bucket_start[OF h12 h3 h4 h5, of "\<lparr>price = 10, size = 1, timestamp = 1000000\<rparr>"]
      h12 h5 fl
    by (simp add: period_15m list_all_iff)
qed

text \<open>
  C9. A timeframe string outside the pattern \<open>^(\d+)([mhd])$\<close> (the empty string,
  \<open>1w\<close>, \<open>abc\<close>, ...) makes \<open>getTimeframePeriod\<close> return 60: the function is total
  and has no error branch, and an aggregator carrying such a label puts every trade into
  the one-minute bucket \<open>floor(timestamp / 1000 / 60) * 60\<close>.
\<close>

theorem C9_unmatched_timeframe_is_one_minute:
  assumes "\<not> matches_pattern tf"
  shows "getTimeframePeriod tf = 60
       \<and> (timeframe a = tf \<longrightarrow>
            map_option candle.timestamp (currentCandle (aggregateTrade a t))
              = Some (Some (\<lfloor>trade.timestamp t / 1000 / 60\<rfloor> * 60)))"
proof -
  have p: "getTimeframePeriod tf = 60"
    using assms by (simp add: getTimeframePeriod_unmatched timeframe_match_None_iff)
  have "map_option candle.timestamp (currentCandle (aggregateTrade a t))
          = Some (Some (\<lfloor>trade.timestamp t / 1000 / 60\<rfloor> * 60))"
    if "timeframe a = tf"
  proof -
    have "bucket_of a t = Some (\<lfloor>trade.timestamp t / 1000 / 60\<rfloor> * 60)"
      using p that by (simp add: bucket_of_def candleTime_def)
    then show ?thesis by (simp only: aggregateTrade_timestamp)
  qed
  then show ?thesis using p by blast
qed

theorem C9_unmatched_timeframe_is_one_minute_witness:
  "\<not> matches_pattern '''' \<and> getTimeframePeriod '''' = 60
   \<and> \<not> matches_pattern ''1w'' \<and> getTimeframePeriod ''1w'' = 60
   \<and> \<not> matches_pattern ''abc'' \<and> getTimeframePeriod ''abc'' = 60
   \<and> map_option candle.timestamp (currentCandle (aggregateTrade
          \<lparr>timeframe = ''1w'', currentCandle = None, aggregator.trades = []\<rparr>
          \<lparr>price = 9, size = 1, timestamp = 65000\<rparr>)) = Some (Some 60)"
proof -
  have n1: "\<not> matches_pattern ''''"
    unfolding timeframe_match_None_iff[symmetric] by (simp add: timeframe_match_def)
  have n2: "\<not> matches_pattern ''1w''"
    unfolding timeframe_match_None_iff[symmetric]
    by (simp add: timeframe_match_def is_unit_letter_def)
  have n3: "\<not> matches_pattern ''abc''"
    unfolding timeframe_match_None_iff[symmetric]
    by (simp add: timeframe_match_def is_digit_def)
  have fl: "\<lfloor>(65000::real) / 1000 / 60\<rfloor> = 1" by (simp add: floor_eq_iff)
  show ?thesis
    using C9_unmatched_timeframe_is_one_minute[OF n1]
      C9_unmatched_timeframe_is_one_minute[OF n2,
        of "\<lparr>timeframe = ''1w'', currentCandle = None, aggregator.trades = []\<rparr>"
           "\<lparr>price = 9, size = 1, timestamp = 65000\<rparr>"]
      C9_unmatched_timeframe_is_one_minute[OF n3] n1 n2 n3 fl
    by simp
qed

subsection \<open>Trades of one bucket\<close>

lemma aggregateTrade_timeframe: "timeframe (aggregateTrade a t) = timeframe a"
  by (simp add: aggregateTrade_def Let_def split: option.splits)

lemma bucket_of_aggregateTrade: "bucket_of (aggregateTrade a t) t' = bucket_of a t'"
  by (simp add: bucket_of_def aggregateTrade_timeframe)

lemma aggregateTrade_fresh:
  assumes "fresh_for a b" "bucket_of a t = Some b"
  shows "currentCandle (aggregateTrade a t) = Some (summary b [t])"
  using assms
  by (auto simp: aggregateTrade_def fresh_for_def bucket_of_def newCandle_def summary_def
      split: option.splits)

lemma aggregateTrade_same:
  assumes "ps \<noteq> []" "currentCandle a = Some (summary b ps)" "bucket_of a t = Some b"
  shows "currentCandle (aggregateTrade a t) = Some (summary b (ps @ [t]))"
proof -
  have f: "finite (trade.price ` set ps)" "trade.price ` set ps \<noteq> {}"
    using assms(1) by auto
  have hi: "Max (trade.price ` set (ps @ [t])) = max (Max (trade.price ` set ps)) (trade.price t)"
    using f by (simp add: max.commute)
  have lo: "Min (trade.price ` set (ps @ [t])) = min (Min (trade.price ` set ps)) (trade.price t)"
    using f by (simp add: min.commute)
  have eq: "\<not> js_strict_neq (candle.timestamp (summary b ps)) (Some b)"
    by (simp add: js_strict_neq_def summary_def)
  have "currentCandle (aggregateTrade a t) = Some (updateCandle (summary b ps) t)"
    using assms(2,3) eq by (simp add: aggregateTrade_def bucket_of_def)
  moreover have "updateCandle (summary b ps) t = summary b (ps @ [t])"
    using assms(1) unfolding hi lo summary_def updateCandle_def by simp
  ultimately show ?thesis by simp
qed

lemma foldl_aggregateTrade_same:
  assumes "ps \<noteq> []" "currentCandle a = Some (summary b ps)"
    "\<forall>t \<in> set ts. bucket_of a t = Some b"
  shows "currentCandle (foldl aggregateTrade a ts) = Some (summary b (ps @ ts))"
  using assms
proof (induction ts arbitrary: a ps)
  case Nil
  then show ?case by simp
next
  case (Cons t ts)
  have 1: "currentCandle (aggregateTrade a t) = Some (summary b (ps @ [t]))"
    using Cons.prems by (intro aggregateTrade_same) auto
  have 2: "\<forall>t' \<in> set ts. bucket_of (aggregateTrade a t) t' = Some b"
    using Cons.prems(3) by (simp add: bucket_of_aggregateTrade)
  have "currentCandle (foldl aggregateTrade (aggregateTrade a t) ts)
          = Some (summary b ((ps @ [t]) @ ts))"
    by (rule Cons.IH[OF _ 1 2]) simp
  then show ?case by simp
qed

lemma foldl_aggregateTrade_summary:
  assumes "ts \<noteq> []" "\<forall>t \<in> set ts. bucket_of a t = Some b"
    and "if ps = [] then fresh_for a b else currentCandle a = Some (summary b ps)"
  shows "currentCandle (foldl aggregateTrade a ts) = Some (summary b (ps @ ts))"
proof (cases "ps = []")
  case False
  then show ?thesis using assms by (intro foldl_aggregateTrade_same) auto
next
  case True
  obtain t ts' where ts: "ts = t # ts'" using assms(1) by (cases ts) auto
  have 1: "currentCandle (aggregateTrade a t) = Some (summary b [t])"
    using assms True ts by (intro aggregateTrade_fresh) auto
  have 2: "\<forall>t' \<in> set ts'. bucket_of (aggregateTrade a t) t' = Some b"
    using assms(2) ts by (simp add: bucket_of_aggregateTrade)
  have "currentCandle (foldl aggregateTrade (aggregateTrade a t) ts')
          = Some (summary b ([t] @ ts'))"
    by (rule foldl_aggregateTrade_same[OF _ 1 2]) simp
  then show ?thesis using True ts by simp
qed

text \<open>
  C8. Let \<open>ts\<close> be a non-empty list of trades that all fall into bucket \<open>b\<close> of an
  aggregator, ingested in order. If the aggregator held no candle of bucket \<open>b\<close> before
  (\<open>ps = []\<close>), its live candle afterwards has the first trade's price as open, the last
  trade's price as close, the maximum and minimum price as high and low, the sum of the
  sizes as volume and the number of trades as trade count; hence low \<open>\<le>\<close> open, close
  \<open>\<le>\<close> high. If it held the candle that summarises earlier trades \<open>ps\<close> of the bucket, it
  then holds the candle that summarises \<open>ps @ ts\<close>: each single ingest (\<open>ts = [t]\<close>)
  preserves the invariant.
\<close>

theorem C8_candle_summarises_bucket:
  assumes "ts \<noteq> []" and "\<forall>t \<in> set ts. bucket_of a t = Some b"
    and "if ps = [] then fresh_for a b else currentCandle a = Some (summary b ps)"
  shows "currentCandle (foldl aggregateTrade a ts) =
           Some \<lparr>candle.timestamp = Some b,
                 candle.open = trade.price (hd (ps @ ts)),
                 candle.high = Max (trade.price ` set (ps @ ts)),
                 candle.low = Min (trade.price ` set (ps @ ts)),
                 candle.close = trade.price (last (ps @ ts)),
                 candle.volume = sum_list (map trade.size (ps @ ts)),
                 candle.trades = length (ps @ ts)\<rparr>
       \<and> Min (trade.price ` set (ps @ ts)) \<le> trade.price (hd (ps @ ts))
       \<and> trade.price (hd (ps @ ts)) \<le> Max (trade.price ` set (ps @ ts))
       \<and> Min (trade.price ` set (ps @ ts)) \<le> trade.price (last (ps @ ts))
       \<and> trade.price (last (ps @ ts)) \<le> Max (trade.price ` set (ps @ ts))"
proof -
  have ne: "ps @ ts \<noteq> []" using assms(1) by simp
  have "currentCandle (foldl aggregateTrade a ts) = Some (summary b (ps @ ts))"
    using assms by (rule foldl_aggregateTrade_summary)
  moreover have "hd (ps @ ts) \<in> set (ps @ ts)" "last (ps @ ts) \<in> set (ps @ ts)"
    using hd_in_set[OF ne] last_in_set[OF ne] by blast+
  then have "Min (trade.price ` set (ps @ ts)) \<le> trade.price (hd (ps @ ts))"
    "trade.price (hd (ps @ ts)) \<le> Max (trade.price ` set (ps @ ts))"
    "Min (trade.price ` set (ps @ ts)) \<le> trade.price (last (ps @ ts))"
    "trade.price (last (ps @ ts)) \<le> Max (trade.price ` set (ps @ ts))"
    by (simp_all only: Min_le Max_ge finite_imageI finite_set imageI)
  ultimately show ?thesis unfolding summary_def by simp
qed

lemma bucket_1m: "bucket_of agg1m \<lparr>price = p, size = s, timestamp = ms\<rparr> = Some (\<lfloor>ms / 1000 / 60\<rfloor> * 60)"
  by (simp add: bucket_of_def agg1m_def period_1m candleTime_def)

theorem C8_candle_summarises_bucket_witness:
  "currentCandle (foldl aggregateTrade agg1m
      [\<lparr>price = 10, size = 2, timestamp = 0\<rparr>, \<lparr>price = 12, size = 3, timestamp = 30000\<rparr>,
       \<lparr>price = 11, size = 4, timestamp = 59999\<rparr>])
    = Some \<lparr>candle.timestamp = Some 0, candle.open = 10, candle.high = 12, candle.low = 10,
            candle.close = 11, candle.volume = 9, candle.trades = 3\<rparr>"
proof -
  have fl: "\<lfloor>(30000::real) / 1000 / 60\<rfloor> = 0" "\<lfloor>(59999::real) / 1000 / 60\<rfloor> = 0"
    by (simp_all add: floor_eq_iff)
  have h1: "[\<lparr>price = 10, size = 2, timestamp = 0\<rparr>, \<lparr>price = 12, size = 3, timestamp = 30000\<rparr>,
       \<lparr>price = 11::real, size = 4::real, timestamp = 59999::real\<rparr>] \<noteq> []" by simp
  have h2: "\<forall>t \<in> set [\<lparr>price = 10, size = 2, timestamp = 0\<rparr>,
       \<lparr>price = 12, size = 3, timestamp = 30000\<rparr>,
       \<lparr>price = 11, size = 4, timestamp = 59999\<rparr>]. bucket_of agg1m t = Some 0"
    by (simp add: bucket_1m fl)
  have h3: "if ([]::trade list) = [] then fresh_for agg1m 0
            else currentCandle agg1m = Some (summary 0 [])"
    by (simp add: fresh_for_def agg1m_def)
  show ?thesis
    using C8_candle_summarises_bucket[OF h1 h2 h3] by simp
qed

subsection \<open>The example trade sequence\<close>

lemma aggregateTrade_example_1:
  "aggregateTrade agg1m \<lparr>price = 10, size = s1, timestamp = 0\<rparr>
     = agg1m\<lparr>currentCandle := Some \<lparr>candle.timestamp = Some 0, candle.open = 10,
          candle.high = 10, candle.low = 10, candle.close = 10, candle.volume = s1,
          candle.trades = 1\<rparr>\<rparr>"
  by (simp add: aggregateTrade_def agg1m_def period_1m candleTime_def newCandle_def)

lemma aggregateTrade_example_2:
  "aggregateTrade
     (agg1m\<lparr>currentCandle := Some \<lparr>candle.timestamp = Some 0, candle.open = 10,
          candle.high = 10, candle.low = 10, candle.close = 10, candle.volume = s1,
          candle.trades = 1\<rparr>\<rparr>)
     \<lparr>price = 12, size = s2, timestamp = 30000\<rparr>
     = agg1m\<lparr>currentCandle := Some \<lparr>candle.timestamp = Some 0, candle.open = 10,
          candle.high = 12, candle.low = 10, candle.close = 12, candle.volume = s1 + s2,
          candle.trades = 2\<rparr>\<rparr>"
  by (simp add: aggregateTrade_def agg1m_def period_1m candleTime_def updateCandle_def
      js_strict_neq_def)

lemma aggregateTrade_example_3:
  "aggregateTrade
     (agg1m\<lparr>currentCandle := Some \<lparr>candle.timestamp = Some 0, candle.open = 10,
          candle.high = 12, candle.low = 10, candle.close = 12, candle.volume = s1 + s2,
          candle.trades = 2\<rparr>\<rparr>)
     \<lparr>price = 9, size = s3, timestamp = 65000\<rparr>
     = agg1m\<lparr>currentCandle := Some \<lparr>candle.timestamp = Some 60, candle.open = 9,
          candle.high = 9, candle.low = 9, candle.close = 9, candle.volume = s3,
          candle.trades = 1\<rparr>\<rparr>"
  by (simp add: aggregateTrade_def agg1m_def period_1m candleTime_def newCandle_def
      js_strict_neq_def)

lemma processTrades_single:
  "processTrades [(tf, a)] [t]
     = ([(tf, aggregateTrade a t)], updateCandleDisplay [(tf, aggregateTrade a t)])"
  by (simp add: processTrades_def aggregateAll_def Let_def)

lemma updateCandleDisplay_single:
  "updateCandleDisplay [(tf, a)] = (case currentCandle a of None \<Rightarrow> [] | Some c \<Rightarrow> [(tf, c)])"
  by (simp add: updateCandleDisplay_def List.map_filter_simps split: option.splits)

lemma processMessages_single:
  "processMessages [(tf, a)] ([t] # ms)
     = updateCandleDisplay [(tf, aggregateTrade a t)]
         # processMessages [(tf, aggregateTrade a t)] ms"
  by (simp add: processTrades_single)

lemma updateCandleDisplay_agg1m:
  "updateCandleDisplay [(tf, agg1m\<lparr>currentCandle := Some c\<rparr>)] = [(tf, c)]"
  by (simp add: updateCandleDisplay_single)

text \<open>
  C1, as stated, fails. The three trades, one message each, with sizes 1, 2 and 3: the
  page shows the bucket-0 candle after the first and the second message and the
  bucket-60 candle after the third. These three refreshes are all that is emitted; the
  third carries the new candle only, so no close of the bucket starting at 0 is ever
  emitted: \<open>aggregateTrade\<close> overwrites \<open>currentCandle\<close>.
\<close>

theorem C1_no_close_event_counterexample:
  "processMessages [(''1m'', agg1m)]
     [[\<lparr>price = 10, size = 1, timestamp = 0\<rparr>],
      [\<lparr>price = 12, size = 2, timestamp = 30000\<rparr>],
      [\<lparr>price = 9, size = 3, timestamp = 65000\<rparr>]]
   = [[(''1m'', \<lparr>candle.timestamp = Some 0, candle.open = 10, candle.high = 10,
               candle.low = 10, candle.close = 10, candle.volume = 1, candle.trades = 1\<rparr>)],
      [(''1m'', \<lparr>candle.timestamp = Some 0, candle.open = 10, candle.high = 12,
               candle.low = 10, candle.close = 12, candle.volume = 3, candle.trades = 2\<rparr>)],
      [(''1m'', \<lparr>candle.timestamp = Some 60, candle.open = 9, candle.high = 9,
               candle.low = 9, candle.close = 9, candle.volume = 3, candle.trades = 1\<rparr>)]]"
proof -
  have "processMessages [(''1m'', agg1m)]
     [[\<lparr>price = 10, size = 1, timestamp = 0\<rparr>],
      [\<lparr>price = 12, size = 2, timestamp = 30000\<rparr>],
      [\<lparr>price = 9, size = 3, timestamp = 65000\<rparr>]]
   = [[(''1m'', \<lparr>candle.timestamp = Some 0, candle.open = 10, candle.high = 10,
               candle.low = 10, candle.close = 10, candle.volume = 1, candle.trades = 1\<rparr>)],
      [(''1m'', \<lparr>candle.timestamp = Some 0, candle.open = 10, candle.high = 12,
               candle.low = 10, candle.close = 12, candle.volume = 1 + 2, candle.trades = 2\<rparr>)],
      [(''1m'', \<lparr>candle.timestamp = Some 60, candle.open = 9, candle.high = 9,
               candle.low = 9, candle.close = 9, candle.volume = 3, candle.trades = 1\<rparr>)]]"
    unfolding processMessages_single
    by (simp only: processMessages.simps(1) aggregateTrade_example_1
        aggregateTrade_example_2 aggregateTrade_example_3 updateCandleDisplay_agg1m)
  then show ?thesis by simp
qed

text \<open>
  C1, amended. For the trades \<open>(t=0, p=10)\<close>, \<open>(t=30, p=12)\<close>, \<open>(t=65, p=9)\<close> of any
  sizes, ingested in order into the \<open>1m\<close> aggregator: the live candle after the first
  trade is the bucket-0 candle with open = high = low = close = 10; after the second it
  is the bucket-0 candle with open 10, high 12, low 10, close 12; after the third the
  bucket-0 candle has been replaced, with nothing emitted for it, by the fresh candle of
  bucket 60 with open = high = low = close = 9, volume the trade's size and trade count 1.
\<close>

theorem C1_live_candle_after_each_trade:
  "currentCandle (aggregateTrade agg1m \<lparr>price = 10, size = s1, timestamp = 0\<rparr>)
     = Some \<lparr>candle.timestamp = Some 0, candle.open = 10, candle.high = 10, candle.low = 10,
             candle.close = 10, candle.volume = s1, candle.trades = 1\<rparr>
   \<and> currentCandle (foldl aggregateTrade agg1m
        [\<lparr>price = 10, size = s1, timestamp = 0\<rparr>, \<lparr>price = 12, size = s2, timestamp = 30000\<rparr>])
     = Some \<lparr>candle.timestamp = Some 0, candle.open = 10, candle.high = 12, candle.low = 10,
             candle.close = 12, candle.volume = s1 + s2, candle.trades = 2\<rparr>
   \<and> foldl aggregateTrade agg1m
        [\<lparr>price = 10, size = s1, timestamp = 0\<rparr>, \<lparr>price = 12, size = s2, timestamp = 30000\<rparr>,
         \<lparr>price = 9, size = s3, timestamp = 65000\<rparr>]
     = agg1m\<lparr>currentCandle := Some \<lparr>candle.timestamp = Some 60, candle.open = 9,
          candle.high = 9, candle.low = 9, candle.close = 9, candle.volume = s3,
          candle.trades = 1\<rparr>\<rparr>
   \<and> snd (processTrades [(''1m'', foldl aggregateTrade agg1m
        [\<lparr>price = 10, size = s1, timestamp = 0\<rparr>, \<lparr>price = 12, size = s2, timestamp = 30000\<rparr>])]
        [\<lparr>price = 9, size = s3, timestamp = 65000\<rparr>])
     = [(''1m'', \<lparr>candle.timestamp = Some 60, candle.open = 9, candle.high = 9,
          candle.low = 9, candle.close = 9, candle.volume = s3, candle.trades = 1\<rparr>)]"
proof -
  have f2: "foldl aggregateTrade agg1m
        [\<lparr>price = 10, size = s1, timestamp = 0\<rparr>, \<lparr>price = 12, size = s2, timestamp = 30000\<rparr>]
     = agg1m\<lparr>currentCandle := Some \<lparr>candle.timestamp = Some 0, candle.open = 10,
          candle.high = 12, candle.low = 10, candle.close = 12, candle.volume = s1 + s2,
          candle.trades = 2\<rparr>\<rparr>"
    by (simp only: foldl.simps aggregateTrade_example_1 aggregateTrade_example_2)
  have f3: "foldl aggregateTrade agg1m
        [\<lparr>price = 10, size = s1, timestamp = 0\<rparr>, \<lparr>price = 12, size = s2, timestamp = 30000\<rparr>,
         \<lparr>price = 9, size = s3, timestamp = 65000\<rparr>]
     = agg1m\<lparr>currentCandle := Some \<lparr>candle.timestamp = Some 60, candle.open = 9,
          candle.high = 9, candle.low = 9, candle.close = 9, candle.volume = s3,
          candle.trades = 1\<rparr>\<rparr>"
    by (simp only: foldl.simps aggregateTrade_example_1 aggregateTrade_example_2
        aggregateTrade_example_3)
  have sel: "currentCandle (agg1m\<lparr>currentCandle := Some c\<rparr>) = Some c" for c
    by simp
  show ?thesis
    by (simp only: f2 f3 processTrades_single aggregateTrade_example_1
        aggregateTrade_example_3 updateCandleDisplay_agg1m snd_conv sel simp_thms)
qed

section \<open>Properties of the rate-limited price updates\<close>

lemma commitUpdate_cases:
  assumes "commitUpdate nowMs thr st t b vb = (st', calls)" "thr \<noteq> VolumeUpdateThrows"
  shows "priceUpdateTimer st' = priceUpdateTimer st
       \<and> ((candleUpdates nowMs calls = [] \<and> lastUpdateTime st' = lastUpdateTime st)
          \<or> (candleUpdates nowMs calls = [(nowMs, b)] \<and> lastUpdateTime st' = nowMs))"
  using assms by (auto simp: commitUpdate_def Let_def split: if_splits)

lemma commitUpdate_length:
  "length (candleUpdates nowMs (snd (commitUpdate nowMs thr st t b vb))) \<le> 1"
  by (simp add: commitUpdate_def Let_def)

lemma commitUpdate_delivered:
  assumes "(d, b') \<in> set (candleUpdates nowMs (snd (commitUpdate nowMs thr st t b vb)))"
  shows "d = nowMs \<and> b' = b"
  using assms by (auto simp: commitUpdate_def Let_def split: if_splits)

lemma commitUpdate_NoThrow:
  "candleUpdates nowMs (snd (commitUpdate nowMs NoThrow st t b vb)) = [(nowMs, b)]"
  by (simp add: commitUpdate_def Let_def)

lemma nextBar_close: "bar.close (fst (snd (nextBar st nowMs px lastTime lastBar))) = px"
  by (simp add: nextBar_def Let_def)

lemma processPriceUpdate_skip:
  assumes "priceUpdateQueue st = None \<or> \<not> candleSeries st \<or> lastCandle st = None
           \<or> (\<exists>bidAsk. priceUpdateQueue st = Some bidAsk \<and> lastPrice bidAsk = None)"
  shows "processPriceUpdate nowMs thr st = (st, [])"
  using assms by (auto simp: processPriceUpdate_def split: option.splits)

lemma processPriceUpdate_commit:
  assumes "priceUpdateQueue st = Some bidAsk" "candleSeries st"
    "lastCandle st = Some (lastTime, lastBar)" "lastPrice bidAsk = Some px"
    "nextBar st nowMs px lastTime lastBar = (t, b, vb)"
  shows "processPriceUpdate nowMs thr st = commitUpdate nowMs thr st t b vb"
  using assms by (simp add: processPriceUpdate_def)

lemma not_ready_queued:
  assumes "\<not> (candleSeries st \<and> lastCandle st \<noteq> None \<and> lastPrice bidAsk \<noteq> None)"
    "priceUpdateQueue st = Some bidAsk"
  shows "priceUpdateQueue st = None \<or> \<not> candleSeries st \<or> lastCandle st = None
           \<or> (\<exists>bidAsk. priceUpdateQueue st = Some bidAsk \<and> lastPrice bidAsk = None)"
  using assms by (cases "lastCandle st"; cases "lastPrice bidAsk"; simp)

lemma not_ready_cases:
  assumes "\<not> (\<exists>bidAsk. priceUpdateQueue st = Some bidAsk \<and> candleSeries st
                \<and> lastCandle st \<noteq> None \<and> lastPrice bidAsk \<noteq> None)"
  shows "priceUpdateQueue st = None \<or> \<not> candleSeries st \<or> lastCandle st = None
           \<or> (\<exists>bidAsk. priceUpdateQueue st = Some bidAsk \<and> lastPrice bidAsk = None)"
proof (cases "priceUpdateQueue st")
  case None
  then show ?thesis by simp
next
  case (Some b)
  then have "\<not> (candleSeries st \<and> lastCandle st \<noteq> None \<and> lastPrice b \<noteq> None)"
    using assms by simp
  then show ?thesis using Some by (rule not_ready_queued)
qed

lemma processPriceUpdate_cases:
  assumes "processPriceUpdate nowMs thr st = (st', calls)" "thr \<noteq> VolumeUpdateThrows"
  shows "priceUpdateTimer st' = priceUpdateTimer st
       \<and> ((candleUpdates nowMs calls = [] \<and> lastUpdateTime st' = lastUpdateTime st)
          \<or> (\<exists>b. candleUpdates nowMs calls = [(nowMs, b)] \<and> lastUpdateTime st' = nowMs))"
proof (cases "\<exists>bidAsk. priceUpdateQueue st = Some bidAsk \<and> candleSeries st
                \<and> lastCandle st \<noteq> None \<and> lastPrice bidAsk \<noteq> None")
  case False
  then have "priceUpdateQueue st = None \<or> \<not> candleSeries st \<or> lastCandle st = None
           \<or> (\<exists>bidAsk. priceUpdateQueue st = Some bidAsk \<and> lastPrice bidAsk = None)"
    by (rule not_ready_cases)
  then have "processPriceUpdate nowMs thr st = (st, [])"
    by (rule processPriceUpdate_skip)
  then show ?thesis using assms(1) by auto
next
  case True
  then obtain bidAsk lastTime lastBar px where
    q: "priceUpdateQueue st = Some bidAsk" "candleSeries st"
      "lastCandle st = Some (lastTime, lastBar)" "lastPrice bidAsk = Some px"
    by auto
  obtain t b vb where n: "nextBar st nowMs px lastTime lastBar = (t, b, vb)"
    by (cases "nextBar st nowMs px lastTime lastBar") auto
  have "commitUpdate nowMs thr st t b vb = (st', calls)"
    using processPriceUpdate_commit[OF q n] assms(1) by simp
  from commitUpdate_cases[OF this assms(2)] show ?thesis by blast
qed

lemma processPriceUpdate_delivered:
  assumes "priceUpdateQueue st = Some bidAsk"
    and "(d, b) \<in> set (candleUpdates nowMs (snd (processPriceUpdate nowMs thr st)))"
  shows "d = nowMs \<and> lastPrice bidAsk = Some (bar.close b)"
proof (cases "candleSeries st \<and> lastCandle st \<noteq> None \<and> lastPrice bidAsk \<noteq> None")
  case False
  then have "priceUpdateQueue st = None \<or> \<not> candleSeries st \<or> lastCandle st = None
           \<or> (\<exists>bidAsk. priceUpdateQueue st = Some bidAsk \<and> lastPrice bidAsk = None)"
    using assms(1) by (rule not_ready_queued)
  then have "processPriceUpdate nowMs thr st = (st, [])"
    by (rule processPriceUpdate_skip)
  then show ?thesis using assms(2) by simp
next
  case True
  then obtain lastTime lastBar px where
    q: "candleSeries st" "lastCandle st = Some (lastTime, lastBar)"
      "lastPrice bidAsk = Some px"
    by auto
  obtain t b' vb where n: "nextBar st nowMs px lastTime lastBar = (t, b', vb)"
    by (cases "nextBar st nowMs px lastTime lastBar") auto
  have c: "bar.close b' = px" using nextBar_close[of st nowMs px lastTime lastBar] n by simp
  have e: "processPriceUpdate nowMs thr st = commitUpdate nowMs thr st t b' vb"
    using assms(1) q n by (rule processPriceUpdate_commit)
  from assms(2) have "d = nowMs \<and> b = b'"
    unfolding e by (rule commitUpdate_delivered)
  then show ?thesis using q(3) c by simp
qed

lemma processPriceUpdate_length:
  "length (candleUpdates nowMs (snd (processPriceUpdate nowMs thr st))) \<le> 1"
proof (cases "\<exists>bidAsk. priceUpdateQueue st = Some bidAsk \<and> candleSeries st
                \<and> lastCandle st \<noteq> None \<and> lastPrice bidAsk \<noteq> None")
  case False
  then have "priceUpdateQueue st = None \<or> \<not> candleSeries st \<or> lastCandle st = None
           \<or> (\<exists>bidAsk. priceUpdateQueue st = Some bidAsk \<and> lastPrice bidAsk = None)"
    by (rule not_ready_cases)
  then have "processPriceUpdate nowMs thr st = (st, [])"
    by (rule processPriceUpdate_skip)
  then show ?thesis by simp
next
  case True
  then obtain bidAsk lastTime lastBar px where
    q: "priceUpdateQueue st = Some bidAsk" "candleSeries st"
      "lastCandle st = Some (lastTime, lastBar)" "lastPrice bidAsk = Some px"
    by auto
  obtain t b vb where n: "nextBar st nowMs px lastTime lastBar = (t, b, vb)"
    by (cases "nextBar st nowMs px lastTime lastBar") auto
  show ?thesis
    unfolding processPriceUpdate_commit[OF q n] by (rule commitUpdate_length)
qed

lemma processPriceUpdate_ready:
  assumes "priceUpdateQueue st = Some bidAsk" "candleSeries st" "lastCandle st \<noteq> None"
    "lastPrice bidAsk \<noteq> None"
  shows "length (candleUpdates nowMs (snd (processPriceUpdate nowMs NoThrow st))) = 1"
proof -
  obtain lastTime lastBar px where
    l: "lastCandle st = Some (lastTime, lastBar)" and p: "lastPrice bidAsk = Some px"
    using assms(3,4) by auto
  obtain t b vb where n: "nextBar st nowMs px lastTime lastBar = (t, b, vb)"
    by (cases "nextBar st nowMs px lastTime lastBar") auto
  show ?thesis
    unfolding processPriceUpdate_commit[OF assms(1,2) l p n] commitUpdate_NoThrow by simp
qed

lemma queuePriceUpdate_timer:
  "timerRespectsInterval st \<Longrightarrow> timerRespectsInterval (queuePriceUpdate nowMs bidAsk st)"
  by (auto simp: queuePriceUpdate_def timerRespectsInterval_def Let_def)

lemma queuePriceUpdate_lastUpdateTime:
  "lastUpdateTime (queuePriceUpdate nowMs bidAsk st) = lastUpdateTime st"
  by (simp add: queuePriceUpdate_def Let_def)

lemma queuePriceUpdate_matching:
  assumes "BestBidAsk.symbol bidAsk = chart.symbol st"
  shows "priceUpdateQueue (queuePriceUpdate nowMs bidAsk st) = Some bidAsk"
    and "priceUpdateTimer (queuePriceUpdate nowMs bidAsk st)
           = Some (nowMs + max 0 (250 - (nowMs - lastUpdateTime st)))"
    and "candleSeries (queuePriceUpdate nowMs bidAsk st) = candleSeries st"
    and "lastCandle (queuePriceUpdate nowMs bidAsk st) = lastCandle st"
  using assms by (simp_all add: queuePriceUpdate_def Let_def)

lemma queuePriceUpdate_symbol:
  "chart.symbol (queuePriceUpdate nowMs bidAsk st) = chart.symbol st"
  by (simp add: queuePriceUpdate_def Let_def)

lemma chartStep_cases:
  assumes "chartStep st e = (st', calls)" "timerRespectsInterval st" "\<not> volumeThrows e"
    "onTime st e"
  shows "timerRespectsInterval st'
       \<and> ((candleUpdates (eventTime e) calls = [] \<and> lastUpdateTime st' = lastUpdateTime st)
          \<or> (\<exists>b. candleUpdates (eventTime e) calls = [(eventTime e, b)]
                \<and> lastUpdateTime st' = eventTime e
                \<and> lastUpdateTime st + 250 \<le> eventTime e))"
proof (cases e)
  case (PriceUpdate nowMs bidAsk)
  then show ?thesis
    using assms(1,2) by (auto simp: queuePriceUpdate_timer queuePriceUpdate_lastUpdateTime)
next
  case (TimerFires nowMs thr)
  then have thr: "thr \<noteq> VolumeUpdateThrows" using assms(3) by (simp add: volumeThrows_def)
  show ?thesis
  proof (cases "priceUpdateTimer st")
    case None
    then show ?thesis using assms(1,2) TimerFires by auto
  next
    case (Some due)
    then have due: "lastUpdateTime st + 250 \<le> due"
      using assms(2) by (simp add: timerRespectsInterval_def)
    have late: "due \<le> nowMs" using assms(4) TimerFires Some by (simp add: onTime_def)
    have p: "processPriceUpdate nowMs thr (st\<lparr>priceUpdateTimer := None\<rparr>) = (st', calls)"
      using assms(1) TimerFires Some by simp
    from processPriceUpdate_cases[OF p thr]
    have t: "priceUpdateTimer st' = None"
      and c: "(candleUpdates nowMs calls = [] \<and> lastUpdateTime st' = lastUpdateTime st)
        \<or> (\<exists>b. candleUpdates nowMs calls = [(nowMs, b)] \<and> lastUpdateTime st' = nowMs)"
      by simp_all
    have "timerRespectsInterval st'" using t by (simp add: timerRespectsInterval_def)
    moreover have "lastUpdateTime st + 250 \<le> nowMs" using due late by simp
    ultimately show ?thesis using c TimerFires by auto
  qed
qed

lemma chartRun_spaced:
  assumes "timerRespectsInterval st" "\<forall>e \<in> set es. \<not> volumeThrows e" "punctual st es"
  shows "spaced250 (chartRun st es)
       \<and> (\<forall>d \<in> set (chartRun st es). lastUpdateTime st + 250 \<le> fst d)"
  using assms
proof (induction es arbitrary: st)
  case Nil
  then show ?case by (simp add: spaced250_def)
next
  case (Cons e es)
  obtain st' calls where s: "chartStep st e = (st', calls)" by (cases "chartStep st e")
  have nv: "\<not> volumeThrows e" "\<forall>e \<in> set es. \<not> volumeThrows e" using Cons.prems(2) by simp_all
  have pt: "onTime st e" "punctual st' es" using Cons.prems(3) s by simp_all
  from chartStep_cases[OF s Cons.prems(1) nv(1) pt(1)]
  have inv: "timerRespectsInterval st'"
    and c: "(candleUpdates (eventTime e) calls = [] \<and> lastUpdateTime st' = lastUpdateTime st)
          \<or> (\<exists>b. candleUpdates (eventTime e) calls = [(eventTime e, b)]
                \<and> lastUpdateTime st' = eventTime e
                \<and> lastUpdateTime st + 250 \<le> eventTime e)"
    by simp_all
  from Cons.IH[OF inv nv(2) pt(2)]
  have ih: "spaced250 (chartRun st' es)"
    "\<forall>d \<in> set (chartRun st' es). lastUpdateTime st' + 250 \<le> fst d" by simp_all
  from c show ?case
  proof
    assume "candleUpdates (eventTime e) calls = [] \<and> lastUpdateTime st' = lastUpdateTime st"
    then show ?thesis using ih s by simp
  next
    assume "\<exists>b. candleUpdates (eventTime e) calls = [(eventTime e, b)]
                \<and> lastUpdateTime st' = eventTime e
                \<and> lastUpdateTime st + 250 \<le> eventTime e"
    then obtain b where b: "candleUpdates (eventTime e) calls = [(eventTime e, b)]"
      "lastUpdateTime st' = eventTime e" "lastUpdateTime st + 250 \<le> eventTime e" by blast
    have "chartRun st (e # es) = (eventTime e, b) # chartRun st' es" using s b(1) by simp
    moreover have "\<forall>d \<in> set (chartRun st' es). eventTime e + 250 \<le> fst d"
      using ih(2) b(2) by simp
    ultimately show ?thesis using ih(1) b(3) by (fastforce simp: spaced250_def)
  qed
qed

lemma queuePriceUpdate_due:
  assumes "BestBidAsk.symbol bidAsk = chart.symbol st"
  shows "priceUpdateTimer (queuePriceUpdate nowMs bidAsk st)
           = Some (max nowMs (lastUpdateTime st + 250))"
  using assms by (simp add: queuePriceUpdate_def Let_def max_def)

lemma chartRun_Cons:
  "chartRun st (e # es)
     = candleUpdates (eventTime e) (snd (chartStep st e)) @ chartRun (fst (chartStep st e)) es"
  by (simp add: split_beta)

lemma chartStep_pending:
  "priceUpdateTimer st \<noteq> None \<Longrightarrow>
   chartStep st (TimerFires nowMs thr)
     = processPriceUpdate nowMs thr (st\<lparr>priceUpdateTimer := None\<rparr>)"
  by auto

lemma chartRun_two_updates_then_timer:
  assumes "BestBidAsk.symbol v2 = chart.symbol st"
  shows "\<exists>s. priceUpdateQueue s = Some v2 \<and> candleSeries s = candleSeries st
             \<and> lastCandle s = lastCandle st
             \<and> chartRun st [PriceUpdate t1 v1, PriceUpdate t2 v2, TimerFires t3 thr]
                 = candleUpdates t3 (snd (processPriceUpdate t3 thr s))"
proof -
  define s1 where "s1 = queuePriceUpdate t1 v1 st"
  define s2 where "s2 = queuePriceUpdate t2 v2 s1"
  define s where "s = s2\<lparr>priceUpdateTimer := None\<rparr>"
  have m: "BestBidAsk.symbol v2 = chart.symbol s1"
    using assms by (simp add: s1_def queuePriceUpdate_symbol)
  have c1: "candleSeries s1 = candleSeries st" "lastCandle s1 = lastCandle st"
    by (simp_all add: s1_def queuePriceUpdate_def Let_def)
  have q: "priceUpdateQueue s2 = Some v2"
    and t: "priceUpdateTimer s2 \<noteq> None"
    and c2: "candleSeries s2 = candleSeries st" "lastCandle s2 = lastCandle st"
    using queuePriceUpdate_matching[OF m, of t2] c1 by (simp_all add: s2_def)
  have "chartRun st [PriceUpdate t1 v1, PriceUpdate t2 v2, TimerFires t3 thr]
          = chartRun s2 [TimerFires t3 thr]"
    by (simp add: s1_def s2_def)
  also have "\<dots> = candleUpdates t3 (snd (processPriceUpdate t3 thr s))"
    by (simp del: chartRun.simps(2) chartStep.simps(2)
        add: chartRun_Cons chartStep_pending[OF t] s_def)
  finally have "chartRun st [PriceUpdate t1 v1, PriceUpdate t2 v2, TimerFires t3 thr]
          = candleUpdates t3 (snd (processPriceUpdate t3 thr s))" .
  moreover have "priceUpdateQueue s = Some v2" "candleSeries s = candleSeries st"
    "lastCandle s = lastCandle st"
    using q c2 by (simp_all add: s_def)
  ultimately show ?thesis by blast
qed

lemma processPriceUpdate_NoThrow:
  assumes "priceUpdateQueue st = Some bidAsk" "candleSeries st" "lastCandle st \<noteq> None"
    "lastPrice bidAsk = Some p"
  shows "\<exists>b. candleUpdates nowMs (snd (processPriceUpdate nowMs NoThrow st)) = [(nowMs, b)]
           \<and> bar.close b = p
           \<and> candleSeries (fst (processPriceUpdate nowMs NoThrow st))
           \<and> lastCandle (fst (processPriceUpdate nowMs NoThrow st)) \<noteq> None
           \<and> chart.symbol (fst (processPriceUpdate nowMs NoThrow st)) = chart.symbol st
           \<and> lastUpdateTime (fst (processPriceUpdate nowMs NoThrow st)) = nowMs"
proof -
  obtain lastTime lastBar where l: "lastCandle st = Some (lastTime, lastBar)"
    using assms(3) by auto
  obtain t b vb where n: "nextBar st nowMs p lastTime lastBar = (t, b, vb)"
    by (cases "nextBar st nowMs p lastTime lastBar") auto
  have c: "bar.close b = p" using nextBar_close[of st nowMs p lastTime lastBar] n by simp
  have e: "processPriceUpdate nowMs NoThrow st = commitUpdate nowMs NoThrow st t b vb"
    using assms(1,2) l assms(4) n by (rule processPriceUpdate_commit)
  show ?thesis
    unfolding e using c assms(2) by (simp add: commitUpdate_def Let_def)
qed

lemma chartRun_timer_between:
  assumes "BestBidAsk.symbol v1 = chart.symbol st" "BestBidAsk.symbol v2 = chart.symbol st"
    "candleSeries st" "lastCandle st \<noteq> None" "lastPrice v1 = Some p1" "lastPrice v2 = Some p2"
  shows "map (\<lambda>d. (fst d, bar.close (snd d)))
           (chartRun st [PriceUpdate t1 v1, TimerFires t1' NoThrow,
                         PriceUpdate t2 v2, TimerFires t3 NoThrow])
         = [(t1', p1), (t3, p2)]"
proof -
  define s1 where "s1 = (queuePriceUpdate t1 v1 st)\<lparr>priceUpdateTimer := None\<rparr>"
  define s2 where "s2 = fst (processPriceUpdate t1' NoThrow s1)"
  define s3 where "s3 = (queuePriceUpdate t2 v2 s2)\<lparr>priceUpdateTimer := None\<rparr>"
  have q1: "priceUpdateQueue s1 = Some v1" "candleSeries s1" "lastCandle s1 \<noteq> None"
    and y1: "chart.symbol s1 = chart.symbol st"
    and t1: "priceUpdateTimer (queuePriceUpdate t1 v1 st) \<noteq> None"
    using queuePriceUpdate_matching[OF assms(1), of t1] assms(3,4)
    by (simp_all add: s1_def queuePriceUpdate_symbol)
  from processPriceUpdate_NoThrow[OF q1 assms(5), of t1']
  obtain b1 where b1: "candleUpdates t1' (snd (processPriceUpdate t1' NoThrow s1)) = [(t1', b1)]"
    "bar.close b1 = p1" "candleSeries s2" "lastCandle s2 \<noteq> None"
    "chart.symbol s2 = chart.symbol s1"
    unfolding s2_def by blast
  have m2: "BestBidAsk.symbol v2 = chart.symbol s2" using assms(2) b1(5) y1 by simp
  have q3: "priceUpdateQueue s3 = Some v2" "candleSeries s3" "lastCandle s3 \<noteq> None"
    and t3: "priceUpdateTimer (queuePriceUpdate t2 v2 s2) \<noteq> None"
    using queuePriceUpdate_matching[OF m2, of t2] b1(3,4) by (simp_all add: s3_def)
  from processPriceUpdate_NoThrow[OF q3 assms(6), of t3]
  obtain b2 where b2: "candleUpdates t3 (snd (processPriceUpdate t3 NoThrow s3)) = [(t3, b2)]"
    "bar.close b2 = p2"
    by blast
  have r4: "chartRun s2 [PriceUpdate t2 v2, TimerFires t3 NoThrow] = [(t3, b2)]"
    using b2(1)
    by (simp del: chartRun.simps(2) chartStep.simps(2)
        add: chartRun_Cons chartStep_pending[OF t3] s3_def)
  have "chartRun st [PriceUpdate t1 v1, TimerFires t1' NoThrow,
                     PriceUpdate t2 v2, TimerFires t3 NoThrow]
          = candleUpdates t1' (snd (processPriceUpdate t1' NoThrow s1))
              @ chartRun s2 [PriceUpdate t2 v2, TimerFires t3 NoThrow]"
    by (simp del: chartRun.simps(2) chartStep.simps(2)
        add: chartRun_Cons[of st] chartRun_Cons[of "queuePriceUpdate t1 v1 st"]
          chartStep_pending[OF t1] s1_def s2_def)
  then show ?thesis using b1(1,2) r4 b2(2) by simp
qed

text \<open>
  C2, amended. (1) If \<open>v1\<close> and then \<open>v2\<close>, a best bid/ask of the chart's symbol, are
  queued and the timeout callback runs only after both, at most one bar is delivered, at
  the time the callback runs and with the price of \<open>v2\<close>, so \<open>v1\<close> is not delivered;
  the bar is delivered when the chart is ready, \<open>v2\<close> has a valid price and no chart
  call throws. The timeout left pending by the two arrivals is due at the later of the
  arrival of \<open>v2\<close> and 250 ms after the last completed update. (2) A value that arrives
  250 ms or more after the last completed update gets a timeout that is due at once;
  and when the callback runs between the two arrivals (chart ready, valid prices, no
  throw), both values are delivered, \<open>v1\<close> first. (3) The callback does not read the
  clock, so the spacing of deliveries is that of the timeouts: in every run that starts
  with no timeout due before the interval has passed, in which no callback runs before
  the due time of its timeout and no volume update throws, any two deliveries are at
  least 250 ms apart.
\<close>

theorem C2_latest_value_rate_limited:
  "(BestBidAsk.symbol v2 = chart.symbol st \<longrightarrow>
      length (chartRun st [PriceUpdate t1 v1, PriceUpdate t2 v2, TimerFires t3 thr]) \<le> 1
    \<and> (\<forall>d \<in> set (chartRun st [PriceUpdate t1 v1, PriceUpdate t2 v2, TimerFires t3 thr]).
          fst d = t3 \<and> lastPrice v2 = Some (bar.close (snd d)))
    \<and> priceUpdateTimer (queuePriceUpdate t2 v2 (queuePriceUpdate t1 v1 st))
        = Some (max t2 (lastUpdateTime st + 250))
    \<and> (candleSeries st \<and> lastCandle st \<noteq> None \<and> lastPrice v2 \<noteq> None \<and> thr = NoThrow \<longrightarrow>
        length (chartRun st [PriceUpdate t1 v1, PriceUpdate t2 v2, TimerFires t3 thr]) = 1))
   \<and> (BestBidAsk.symbol v1 = chart.symbol st \<and> lastUpdateTime st + 250 \<le> t1 \<longrightarrow>
        priceUpdateTimer (queuePriceUpdate t1 v1 st) = Some t1)
   \<and> (BestBidAsk.symbol v1 = chart.symbol st \<and> BestBidAsk.symbol v2 = chart.symbol st
       \<and> candleSeries st \<and> lastCandle st \<noteq> None
       \<and> lastPrice v1 = Some p1 \<and> lastPrice v2 = Some p2 \<longrightarrow>
        map (\<lambda>d. (fst d, bar.close (snd d)))
          (chartRun st [PriceUpdate t1 v1, TimerFires t1' NoThrow,
                        PriceUpdate t2 v2, TimerFires t3 NoThrow])
        = [(t1', p1), (t3, p2)])
   \<and> (timerRespectsInterval st \<and> punctual st es \<and> (\<forall>e \<in> set es. \<not> volumeThrows e) \<longrightarrow>
        spaced250 (chartRun st es))"
proof (intro conjI impI)
  assume m: "BestBidAsk.symbol v2 = chart.symbol st"
  from chartRun_two_updates_then_timer[OF m, of t1 v1 t2 t3 thr]
  obtain s where s: "priceUpdateQueue s = Some v2" "candleSeries s = candleSeries st"
    "lastCandle s = lastCandle st"
    and r: "chartRun st [PriceUpdate t1 v1, PriceUpdate t2 v2, TimerFires t3 thr]
                 = candleUpdates t3 (snd (processPriceUpdate t3 thr s))"
    by blast
  show "length (chartRun st [PriceUpdate t1 v1, PriceUpdate t2 v2, TimerFires t3 thr]) \<le> 1"
    unfolding r by (rule processPriceUpdate_length)
  show "\<forall>d \<in> set (chartRun st [PriceUpdate t1 v1, PriceUpdate t2 v2, TimerFires t3 thr]).
          fst d = t3 \<and> lastPrice v2 = Some (bar.close (snd d))"
  proof
    fix d
    assume "d \<in> set (chartRun st [PriceUpdate t1 v1, PriceUpdate t2 v2, TimerFires t3 thr])"
    then have d: "(fst d, snd d) \<in> set (candleUpdates t3 (snd (processPriceUpdate t3 thr s)))"
      unfolding r by simp
    from processPriceUpdate_delivered[OF s(1) d]
    show "fst d = t3 \<and> lastPrice v2 = Some (bar.close (snd d))" .
  qed
  have "BestBidAsk.symbol v2 = chart.symbol (queuePriceUpdate t1 v1 st)"
    using m by (simp add: queuePriceUpdate_symbol)
  from queuePriceUpdate_due[OF this, of t2]
  show "priceUpdateTimer (queuePriceUpdate t2 v2 (queuePriceUpdate t1 v1 st))
        = Some (max t2 (lastUpdateTime st + 250))"
    by (simp add: queuePriceUpdate_lastUpdateTime)
  assume "candleSeries st \<and> lastCandle st \<noteq> None \<and> lastPrice v2 \<noteq> None \<and> thr = NoThrow"
  then have c: "candleSeries s" "lastCandle s \<noteq> None" "lastPrice v2 \<noteq> None"
    and thr: "thr = NoThrow"
    using s by simp_all
  have "chartRun st [PriceUpdate t1 v1, PriceUpdate t2 v2, TimerFires t3 thr]
          = candleUpdates t3 (snd (processPriceUpdate t3 NoThrow s))"
    using r thr by simp
  then show "length (chartRun st [PriceUpdate t1 v1, PriceUpdate t2 v2, TimerFires t3 thr]) = 1"
    using processPriceUpdate_ready[OF s(1) c, of t3] by (simp only:)
next
  assume "BestBidAsk.symbol v1 = chart.symbol st \<and> lastUpdateTime st + 250 \<le> t1"
  then show "priceUpdateTimer (queuePriceUpdate t1 v1 st) = Some t1"
    using queuePriceUpdate_due[of v1 st t1] by simp
next
  assume "BestBidAsk.symbol v1 = chart.symbol st \<and> BestBidAsk.symbol v2 = chart.symbol st
       \<and> candleSeries st \<and> lastCandle st \<noteq> None
       \<and> lastPrice v1 = Some p1 \<and> lastPrice v2 = Some p2"
  then show "map (\<lambda>d. (fst d, bar.close (snd d)))
          (chartRun st [PriceUpdate t1 v1, TimerFires t1' NoThrow,
                        PriceUpdate t2 v2, TimerFires t3 NoThrow])
        = [(t1', p1), (t3, p2)]"
    using chartRun_timer_between[of v1 st v2 p1 p2 t1 t1' t2 t3] by blast
next
  assume "timerRespectsInterval st \<and> punctual st es \<and> (\<forall>e \<in> set es. \<not> volumeThrows e)"
  then show "spaced250 (chartRun st es)" using chartRun_spaced[of st es] by blast
qed

subsection \<open>A concrete run\<close>

lemma period_1h: "getTimeframePeriod ''1h'' = 3600"
  using configured_periods by simp

lemma lastPrice_quote: "0 < p \<Longrightarrow> lastPrice (quote p) = Some p"
  by (simp add: lastPrice_def quote_def Let_def)

lemma quote_symbol: "BestBidAsk.symbol (quote p) = ''BTC-PERP''"
  by (simp add: quote_def)

text \<open>
  C2, as stated, fails. The last update was long ago; \<open>v1\<close> (price 101) arrives at
  1000000 ms and its timeout, set with delay 0, runs at once; \<open>v2\<close> (price 102) arrives
  100 ms later, less than 250 ms after \<open>v1\<close>, and its timeout runs at 1000250 ms. Both
  values are delivered, \<open>v1\<close> first. And if the browser runs the second callback when
  \<open>Date.now()\<close> reads 1000249, one millisecond before the due time, the second bar is
  delivered 249 ms after the first.
\<close>

theorem C2_both_values_delivered_counterexample:
  "chartRun readyChart
     [PriceUpdate 1000000 (quote 101), TimerFires 1000000 NoThrow,
      PriceUpdate 1000100 (quote 102), TimerFires 1000250 NoThrow]
   = [(1000000, \<lparr>bar.time = Some 0, open = 100, high = 101, low = 100, close = 101,
                  volume = None\<rparr>),
      (1000250, \<lparr>bar.time = Some 0, open = 100, high = 102, low = 100, close = 102,
                  volume = None\<rparr>)]
   \<and> chartRun readyChart
     [PriceUpdate 1000000 (quote 101), TimerFires 1000000 NoThrow,
      PriceUpdate 1000100 (quote 102), TimerFires 1000249 NoThrow]
   = [(1000000, \<lparr>bar.time = Some 0, open = 100, high = 101, low = 100, close = 101,
                  volume = None\<rparr>),
      (1000249, \<lparr>bar.time = Some 0, open = 100, high = 102, low = 100, close = 102,
                  volume = None\<rparr>)]"
  by (simp add: readyChart_def queuePriceUpdate_def quote_symbol processPriceUpdate_def
      lastPrice_quote nextBar_def period_1h currentCandleTime_def js_strict_eq_def
      js_strict_neq_def commitUpdate_def Let_def)

lemma punctual_example:
  "punctual readyChart
     [PriceUpdate 1000000 (quote 101), TimerFires 1000000 NoThrow,
      PriceUpdate 1000100 (quote 102), TimerFires 1000250 NoThrow]"
  by (simp add: onTime_def readyChart_def queuePriceUpdate_def quote_symbol
      processPriceUpdate_def lastPrice_quote nextBar_def period_1h currentCandleTime_def
      js_strict_eq_def js_strict_neq_def commitUpdate_def Let_def)

theorem C2_latest_value_rate_limited_witness:
  "length (chartRun readyChart
     [PriceUpdate 1000000 (quote 101), PriceUpdate 1000100 (quote 102),
      TimerFires 1000250 NoThrow]) = 1
   \<and> priceUpdateTimer (queuePriceUpdate 1000100 (quote 102)
        (queuePriceUpdate 1000000 (quote 101) readyChart)) = Some 1000100
   \<and> map (\<lambda>d. (fst d, bar.close (snd d)))
        (chartRun readyChart
           [PriceUpdate 1000000 (quote 101), TimerFires 1000000 NoThrow,
            PriceUpdate 1000100 (quote 102), TimerFires 1000250 NoThrow])
      = [(1000000, 101), (1000250, 102)]
   \<and> spaced250 (chartRun readyChart
     [PriceUpdate 1000000 (quote 101), TimerFires 1000000 NoThrow,
      PriceUpdate 1000100 (quote 102), TimerFires 1000250 NoThrow])"
proof -
  have h1: "BestBidAsk.symbol (quote 101) = chart.symbol readyChart"
    "BestBidAsk.symbol (quote 102) = chart.symbol readyChart"
    by (simp_all add: quote_def readyChart_def)
  have h2: "candleSeries readyChart" "lastCandle readyChart \<noteq> None"
    "lastPrice (quote 101) = Some 101" "lastPrice (quote 102) = Some 102"
    "lastUpdateTime readyChart = 0"
    by (simp_all add: readyChart_def lastPrice_quote)
  have h3: "timerRespectsInterval readyChart"
    "\<forall>e \<in> set [PriceUpdate 1000000 (quote 101), TimerFires 1000000 NoThrow,
            PriceUpdate 1000100 (quote 102), TimerFires 1000250 NoThrow]. \<not> volumeThrows e"
    by (simp_all add: timerRespectsInterval_def readyChart_def volumeThrows_def)
  note t = C2_latest_value_rate_limited[where st = readyChart and ?v1.0 = "quote 101"
      and ?v2.0 = "quote 102" and ?t1.0 = 1000000 and ?t2.0 = 1000100 and ?t3.0 = 1000250
      and thr = NoThrow and ?t1' = 1000000 and ?p1.0 = 101 and ?p2.0 = 102
      and es = "[PriceUpdate 1000000 (quote 101), TimerFires 1000000 NoThrow,
            PriceUpdate 1000100 (quote 102), TimerFires 1000250 NoThrow]"]
  have h4: "lastPrice (quote 102) \<noteq> None" "NoThrow = NoThrow"
    using h2(4) by simp_all
  have a: "length (chartRun readyChart
     [PriceUpdate 1000000 (quote 101), PriceUpdate 1000100 (quote 102),
      TimerFires 1000250 NoThrow]) = 1"
    using t h1 h2(1,2) h4 by blast
  have "priceUpdateTimer (queuePriceUpdate 1000100 (quote 102)
        (queuePriceUpdate 1000000 (quote 101) readyChart))
      = Some (max 1000100 (lastUpdateTime readyChart + 250))"
    using t h1 by blast
  then have b: "priceUpdateTimer (queuePriceUpdate 1000100 (quote 102)
        (queuePriceUpdate 1000000 (quote 101) readyChart)) = Some 1000100"
    by (simp only: h2(5)) simp
  have c: "map (\<lambda>d. (fst d, bar.close (snd d)))
        (chartRun readyChart
           [PriceUpdate 1000000 (quote 101), TimerFires 1000000 NoThrow,
            PriceUpdate 1000100 (quote 102), TimerFires 1000250 NoThrow])
      = [(1000000, 101), (1000250, 102)]"
    using t h1 h2(1,2,3,4) by blast
  have d: "spaced250 (chartRun readyChart
     [PriceUpdate 1000000 (quote 101), TimerFires 1000000 NoThrow,
      PriceUpdate 1000100 (quote 102), TimerFires 1000250 NoThrow])"
    using t h3 punctual_example by blast
  show ?thesis using a b c d by (intro conjI)
qed

section \<open>Properties of the health check\<close>

text \<open>
  C6, as stated, fails. With the last update 15 s ago the check only queues the cached
  best bid/ask again: it makes no call on the WebSocket, so no subscribe command is
  re-issued. With the last update 31 s ago it unsubscribes the symbol and sets a
  one-second timeout whose callback subscribes it again: the connection is neither
  closed nor opened.
\<close>

theorem C6_no_reconnect_counterexample:
  "healthCheck 15000 True (Some 100) (Some (quote 100)) readyChart
     = (queuePriceUpdate 15000 (quote 100) readyChart, [], None)
   \<and> healthCheck 31000 True (Some 100) (Some (quote 100)) readyChart
     = (queuePriceUpdate 31000 (quote 100) readyChart,
        [UnsubscribeFromBestBidAsk ''BTC-PERP''], Some 1000)
   \<and> resubscribeTimeout True ''BTC-PERP'' = [SubscribeToBestBidAsk ''BTC-PERP'']"
  by (simp add: healthCheck_def resubscribeTimeout_def readyChart_def)

text \<open>
  C6, amended. For the subscribed symbol of the chart: when more than 10 s have passed
  since the last completed update, the check queues the cached best bid/ask again (if
  the WebSocket has a cached price and a cached best bid/ask), without any call on the
  WebSocket; when more than 30 s have passed it also unsubscribes the symbol and, one
  second later, subscribes it again if the component is still subscribed. It never
  connects or disconnects the WebSocket, and does nothing when the component is not
  subscribed or the last update is at most 10 s old.
\<close>

theorem C6_health_check_actions:
  "healthCheck nowMs isSubscribed cachedPrice cachedBidAsk st
     = (if isSubscribed \<and> nowMs - lastUpdateTime st > 10000 then
          ((case (cachedPrice, cachedBidAsk) of
              (Some currentPrice, Some bidAsk) \<Rightarrow> queuePriceUpdate nowMs bidAsk st
            | _ \<Rightarrow> st),
           (if nowMs - lastUpdateTime st > 30000
            then [UnsubscribeFromBestBidAsk (chart.symbol st)] else []),
           (if nowMs - lastUpdateTime st > 30000 then Some 1000 else None))
        else (st, [], None))
   \<and> Connect \<notin> set (fst (snd (healthCheck nowMs isSubscribed cachedPrice cachedBidAsk st)))
   \<and> Disconnect \<notin> set (fst (snd (healthCheck nowMs isSubscribed cachedPrice cachedBidAsk st)))
   \<and> SubscribeToBestBidAsk s
        \<notin> set (fst (snd (healthCheck nowMs isSubscribed cachedPrice cachedBidAsk st)))
   \<and> resubscribeTimeout isSubscribed s
        = (if isSubscribed then [SubscribeToBestBidAsk s] else [])"
  by (simp add: healthCheck_def resubscribeTimeout_def Let_def split: option.splits)

section \<open>Properties of the market list subscriptions\<close>

lemma length_topMarkets: "length (topMarkets tickers) = min 30 (length tickers)"
  by (simp add: topMarkets_def sortedByVolume_def min.commute)

lemma length_selectedSymbolArray: "length (selectedSymbolArray sel tickers) \<le> 1"
  by (simp add: selectedSymbolArray_def Let_def split: option.splits)

lemma selectedSymbolArray_member:
  assumes "s \<in> set (selectedSymbolArray sel tickers)"
  shows "sel = Some s \<and> s \<noteq> [] \<and> s \<notin> set (topMarketSymbols tickers)"
  using assms
  by (auto simp: selectedSymbolArray_def Let_def topMarketSymbols_def list_ex_iff
      split: option.splits if_splits)

lemma selectedSymbolArray_added:
  assumes "s \<noteq> []" "s \<notin> set (topMarketSymbols tickers)"
  shows "selectedSymbolArray (Some s) tickers = [s]"
  using assms
  by (auto simp: selectedSymbolArray_def Let_def topMarketSymbols_def list_ex_iff)

lemma topMarkets_rest_mset:
  "mset (topMarkets tickers @ drop 30 (sortedByVolume tickers)) = mset tickers"
  by (simp add: topMarkets_def sortedByVolume_def)

lemma topMarkets_highest:
  assumes "t \<in> set (topMarkets tickers)" "r \<in> set (drop 30 (sortedByVolume tickers))"
  shows "volumeOf r \<le> volumeOf t"
proof -
  let ?s = "sortedByVolume tickers"
  have "sorted (map (\<lambda>t. - volumeOf t) ?s)"
    by (simp add: sortedByVolume_def)
  then have "sorted (map (\<lambda>t. - volumeOf t) (take 30 ?s) @ map (\<lambda>t. - volumeOf t) (drop 30 ?s))"
    by (simp only: map_append[symmetric] append_take_drop_id)
  then have "\<forall>x \<in> set (map (\<lambda>t. - volumeOf t) (take 30 ?s)).
             \<forall>y \<in> set (map (\<lambda>t. - volumeOf t) (drop 30 ?s)). x \<le> y"
    by (simp only: sorted_append) blast
  then have "- volumeOf t \<le> - volumeOf r"
    using assms by (simp add: topMarkets_def)
  then show ?thesis by simp
qed

text \<open>
  C10. Whatever the ticker list and the selected symbol, the component asks for at most
  31 ticker symbols, fewer than the 250 of the channel limit: the symbols of
  \<open>topMarkets\<close>, which are the (at most) 30 tickers of highest volume, every other
  ticker having at most the volume of each of them, and at most one more symbol, the
  selected one, which is added only if no top market has it, and is added whenever it is
  a non-empty symbol that no top market has.
\<close>

theorem C10_at_most_31_symbols:
  "length (topMarketSymbols tickers) \<le> 30
   \<and> length (topMarkets tickers) = min 30 (length tickers)
   \<and> length (selectedSymbolArray sel tickers) \<le> 1
   \<and> length (subscribedSymbols sel tickers) \<le> 31
   \<and> length (subscribedSymbols sel tickers) < 250
   \<and> mset (topMarkets tickers @ drop 30 (sortedByVolume tickers)) = mset tickers
   \<and> (\<forall>t \<in> set (topMarkets tickers). \<forall>r \<in> set (drop 30 (sortedByVolume tickers)).
         volumeOf r \<le> volumeOf t)
   \<and> (\<forall>s \<in> set (selectedSymbolArray sel tickers).
         sel = Some s \<and> s \<notin> set (topMarketSymbols tickers))
   \<and> (\<forall>s. s \<noteq> [] \<and> s \<notin> set (topMarketSymbols tickers) \<longrightarrow>
         selectedSymbolArray (Some s) tickers = [s])"
proof -
  have 1: "length (topMarketSymbols tickers) \<le> 30"
    by (simp add: topMarketSymbols_def length_topMarkets)
  have 2: "length (subscribedSymbols sel tickers) \<le> 31"
    using 1 length_selectedSymbolArray[of sel tickers] by (simp add: subscribedSymbols_def)
  have 3: "length (subscribedSymbols sel tickers) < 250" using 2 by simp
  have 4: "\<forall>t \<in> set (topMarkets tickers). \<forall>r \<in> set (drop 30 (sortedByVolume tickers)).
         volumeOf r \<le> volumeOf t"
    using topMarkets_highest by blast
  have 5: "\<forall>s \<in> set (selectedSymbolArray sel tickers).
         sel = Some s \<and> s \<notin> set (topMarketSymbols tickers)"
    using selectedSymbolArray_member by blast
  have 6: "\<forall>s. s \<noteq> [] \<and> s \<notin> set (topMarketSymbols tickers) \<longrightarrow>
         selectedSymbolArray (Some s) tickers = [s]"
    using selectedSymbolArray_added by blast
  show ?thesis
    using 1 length_topMarkets[of tickers] length_selectedSymbolArray[of sel tickers] 2 3
      topMarkets_rest_mset[of tickers] 4 5 6
    by blast
qed

lemma sortedByVolume_example:
  "map ticker.symbol (sortedByVolume exampleTickers)
     = [''BTC-PERP'', ''ETH-PERP'', ''SOL-PERP'', ''XRP-PERP'', ''ADA-PERP'', ''DOGE-PERP'',
        ''AVAX-PERP'', ''DOT-PERP'', ''LINK-PERP'', ''LTC-PERP'', ''BCH-PERP'', ''UNI-PERP'',
        ''ATOM-PERP'', ''ETC-PERP'', ''FIL-PERP'', ''APT-PERP'', ''ARB-PERP'', ''OP-PERP'',
        ''NEAR-PERP'', ''INJ-PERP'', ''SUI-PERP'', ''TIA-PERP'', ''SEI-PERP'', ''RUNE-PERP'',
        ''AAVE-PERP'', ''MKR-PERP'', ''SNX-PERP'', ''CRV-PERP'', ''LDO-PERP'', ''GMX-PERP'',
        ''DYDX-PERP'', ''PEPE-PERP'']"
  by (simp add: sortedByVolume_def exampleTickers_def volumeOf_def)

theorem C10_at_most_31_symbols_witness:
  "subscribedSymbols (Some ''PEPE-PERP'') exampleTickers
     = [''BTC-PERP'', ''ETH-PERP'', ''SOL-PERP'', ''XRP-PERP'', ''ADA-PERP'', ''DOGE-PERP'',
        ''AVAX-PERP'', ''DOT-PERP'', ''LINK-PERP'', ''LTC-PERP'', ''BCH-PERP'', ''UNI-PERP'',
        ''ATOM-PERP'', ''ETC-PERP'', ''FIL-PERP'', ''APT-PERP'', ''ARB-PERP'', ''OP-PERP'',
        ''NEAR-PERP'', ''INJ-PERP'', ''SUI-PERP'', ''TIA-PERP'', ''SEI-PERP'', ''RUNE-PERP'',
        ''AAVE-PERP'', ''MKR-PERP'', ''SNX-PERP'', ''CRV-PERP'', ''LDO-PERP'', ''GMX-PERP'',
        ''PEPE-PERP'']
   \<and> length (subscribedSymbols (Some ''PEPE-PERP'') exampleTickers) < 250
   \<and> subscribedSymbols (Some ''BTC-PERP'') exampleTickers = topMarketSymbols exampleTickers"
proof -
  have top: "topMarketSymbols exampleTickers
     = [''BTC-PERP'', ''ETH-PERP'', ''SOL-PERP'', ''XRP-PERP'', ''ADA-PERP'', ''DOGE-PERP'',
        ''AVAX-PERP'', ''DOT-PERP'', ''LINK-PERP'', ''LTC-PERP'', ''BCH-PERP'', ''UNI-PERP'',
        ''ATOM-PERP'', ''ETC-PERP'', ''FIL-PERP'', ''APT-PERP'', ''ARB-PERP'', ''OP-PERP'',
        ''NEAR-PERP'', ''INJ-PERP'', ''SUI-PERP'', ''TIA-PERP'', ''SEI-PERP'', ''RUNE-PERP'',
        ''AAVE-PERP'', ''MKR-PERP'', ''SNX-PERP'', ''CRV-PERP'', ''LDO-PERP'', ''GMX-PERP'']"
    unfolding topMarketSymbols_def topMarkets_def take_map[symmetric] sortedByVolume_example
    by simp
  have notin: "''PEPE-PERP'' \<noteq> [] \<and> ''PEPE-PERP'' \<notin> set (topMarketSymbols exampleTickers)"
    unfolding top by simp
  have "selectedSymbolArray (Some ''BTC-PERP'') exampleTickers = []"
  proof (rule ccontr)
    assume "selectedSymbolArray (Some ''BTC-PERP'') exampleTickers \<noteq> []"
    then obtain s where s: "s \<in> set (selectedSymbolArray (Some ''BTC-PERP'') exampleTickers)"
      by (cases "selectedSymbolArray (Some ''BTC-PERP'') exampleTickers") auto
    with C10_at_most_31_symbols[of exampleTickers "Some ''BTC-PERP''"]
    have "Some ''BTC-PERP'' = Some s \<and> s \<notin> set (topMarketSymbols exampleTickers)" by blast
    then show False unfolding top by auto
  qed
  moreover have "selectedSymbolArray (Some ''PEPE-PERP'') exampleTickers = [''PEPE-PERP'']"
    using C10_at_most_31_symbols[of exampleTickers "Some ''PEPE-PERP''"] notin by blast
  moreover have "length (subscribedSymbols (Some ''PEPE-PERP'') exampleTickers) < 250"
    using C10_at_most_31_symbols[of exampleTickers "Some ''PEPE-PERP''"] by blast
  ultimately show ?thesis by (simp add: subscribedSymbols_def top)
qed

section \<open>Properties of the subscription registry\<close>

lemma subscribe_rejected:
  assumes "map_of (subscriptions r) k = None" "cap \<le> activeCount r"
  shows "subscribe cap k r = (r, Inl SubscriptionLimitExceeded)"
  using assms by (simp add: subscribe_def)

lemma length_update_present:
  "map_of al k = Some n \<Longrightarrow> length (AList.update k v al) = length al"
  by (induction al) (auto split: if_splits)

lemma activeCount_subscribe:
  assumes "activeCount r \<le> cap"
  shows "activeCount (fst (subscribe cap k r)) \<le> cap"
proof (cases "map_of (subscriptions r) k")
  case None
  then show ?thesis using assms by (simp add: subscribe_def activeCount_def)
next
  case (Some n)
  then show ?thesis
    using assms by (simp add: subscribe_def activeCount_def length_update_present)
qed

lemma activeCount_unsubscribe:
  assumes "activeCount r \<le> cap"
  shows "activeCount (fst (unsubscribe k r)) \<le> cap"
proof (cases "map_of (subscriptions r) k")
  case None
  then show ?thesis using assms by (simp add: unsubscribe_def)
next
  case (Some n)
  have "length (AList.delete k (subscriptions r)) \<le> length (subscriptions r)"
    by (rule AList.length_delete_le)
  then show ?thesis
    using assms Some by (simp add: unsubscribe_def activeCount_def length_update_present)
qed

lemma activeCount_registryStep:
  "activeCount r \<le> cap \<Longrightarrow> activeCount (registryStep cap r c) \<le> cap"
  by (cases c) (simp_all add: activeCount_subscribe activeCount_unsubscribe)

lemma activeCount_registryRun:
  "activeCount r \<le> cap \<Longrightarrow> activeCount (registryRun cap r calls) \<le> cap"
  unfolding registryRun_def
  by (induction calls arbitrary: r) (simp_all add: activeCount_registryStep)

text \<open>
  C3. A \<open>subscribe\<close> for a key that has no subscription, made when the number of live
  subscriptions has reached the cap, fails with \<open>SubscriptionLimitExceeded\<close> and leaves
  the registry as it was, so that no upstream command is issued for the key; and no
  sequence of \<open>subscribe\<close> and \<open>unsubscribe\<close> calls takes the number of live
  subscriptions above the cap.
\<close>

theorem C3_cap_enforced:
  "(map_of (subscriptions r) k = None \<and> cap \<le> activeCount r \<longrightarrow>
      subscribe cap k r = (r, Inl SubscriptionLimitExceeded)
      \<and> sent (fst (subscribe cap k r)) = sent r)
   \<and> (activeCount r \<le> cap \<longrightarrow> activeCount (registryRun cap r calls) \<le> cap)"
  using subscribe_rejected[of r k cap] activeCount_registryRun[of r cap calls] by simp

lemma registryRun_two:
  "registryRun 2 emptyRegistry [Subscribe (''ticker'', ''BTC-PERP''), Subscribe (''ticker'', ''ETH-PERP'')]
     = \<lparr>subscriptions = [((''ticker'', ''BTC-PERP''), 1), ((''ticker'', ''ETH-PERP''), 1)],
        sent = [SubscribeCommand (''ticker'', ''BTC-PERP''),
                SubscribeCommand (''ticker'', ''ETH-PERP'')]\<rparr>"
  by (simp add: registryRun_def emptyRegistry_def subscribe_def activeCount_def)

theorem C3_cap_enforced_witness:
  "subscribe 2 (''ticker'', ''SOL-PERP'')
      (registryRun 2 emptyRegistry
         [Subscribe (''ticker'', ''BTC-PERP''), Subscribe (''ticker'', ''ETH-PERP'')])
     = (\<lparr>subscriptions = [((''ticker'', ''BTC-PERP''), 1), ((''ticker'', ''ETH-PERP''), 1)],
         sent = [SubscribeCommand (''ticker'', ''BTC-PERP''),
                 SubscribeCommand (''ticker'', ''ETH-PERP'')]\<rparr>,
        Inl SubscriptionLimitExceeded)
   \<and> activeCount (registryRun 2 emptyRegistry
         [Subscribe (''ticker'', ''BTC-PERP''), Subscribe (''ticker'', ''ETH-PERP''),
          Subscribe (''ticker'', ''SOL-PERP''), Unsubscribe (''ticker'', ''BTC-PERP''),
          Subscribe (''ticker'', ''SOL-PERP'')]) \<le> 2"
proof -
  let ?r = "\<lparr>subscriptions = [((''ticker'', ''BTC-PERP''), 1), ((''ticker'', ''ETH-PERP''), 1)],
         sent = [SubscribeCommand (''ticker'', ''BTC-PERP''),
                 SubscribeCommand (''ticker'', ''ETH-PERP'')]\<rparr>"
  have h1: "map_of (subscriptions ?r) (''ticker'', ''SOL-PERP'') = None \<and> 2 \<le> activeCount ?r"
    by (simp add: activeCount_def)
  have h2: "activeCount emptyRegistry \<le> 2" by (simp add: activeCount_def emptyRegistry_def)
  show ?thesis
    using C3_cap_enforced[of ?r "(''ticker'', ''SOL-PERP'')" 2] h1
      C3_cap_enforced[of emptyRegistry _ 2] h2
    by (simp add: registryRun_two)
qed

lemma subscribe_present:
  assumes "map_of (subscriptions r) k = Some n"
  shows "snd (subscribe cap k r) = Inr (Suc n)"
    and "sent (fst (subscribe cap k r)) = sent r"
    and "map_of (subscriptions (fst (subscribe cap k r))) k = Some (Suc n)"
  using assms by (simp_all add: subscribe_def AList.update_conv')

lemma subscribe_first:
  assumes "map_of (subscriptions r) k = None" "activeCount r < cap"
  shows "snd (subscribe cap k r) = Inr 1"
    and "sent (fst (subscribe cap k r)) = sent r @ [SubscribeCommand k]"
    and "map_of (subscriptions (fst (subscribe cap k r))) k = Some 1"
  using assms by (simp_all add: subscribe_def map_add_def)

lemma subscribeTimes_Suc:
  "subscribeTimes cap k (Suc n) r
     = (fst (subscribeTimes cap k n (fst (subscribe cap k r))),
        snd (subscribe cap k r) # snd (subscribeTimes cap k n (fst (subscribe cap k r))))"
  by (simp add: split_beta)

lemma subscribeTimes_present:
  assumes "map_of (subscriptions r) k = Some n"
  shows "snd (subscribeTimes cap k m r) = map Inr [Suc n..<Suc n + m]
       \<and> sent (fst (subscribeTimes cap k m r)) = sent r
       \<and> map_of (subscriptions (fst (subscribeTimes cap k m r))) k = Some (n + m)"
  using assms
proof (induction m arbitrary: r n)
  case 0
  then show ?case by simp
next
  case (Suc m)
  let ?r' = "fst (subscribe cap k r)"
  have p: "map_of (subscriptions ?r') k = Some (Suc n)"
    using Suc.prems by (rule subscribe_present(3))
  from Suc.IH[OF p]
  have ih: "snd (subscribeTimes cap k m ?r') = map Inr [Suc (Suc n)..<Suc (Suc n) + m]"
    "sent (fst (subscribeTimes cap k m ?r')) = sent ?r'"
    "map_of (subscriptions (fst (subscribeTimes cap k m ?r'))) k = Some (Suc n + m)"
    by simp_all
  have "[Suc n..<Suc n + Suc m] = Suc n # [Suc (Suc n)..<Suc (Suc n) + m]"
    by (simp add: upt_conv_Cons)
  then show ?case
    unfolding subscribeTimes_Suc
    using ih subscribe_present(1,2)[OF Suc.prems, of cap] by simp
qed

text \<open>
  C7. If the key \<open>k\<close> has no subscription yet and the registry is below its cap, then
  \<open>N \<ge> 1\<close> calls of \<open>subscribe\<close> for \<open>k\<close> return the reference counts \<open>1, ..., N\<close>,
  the last one \<open>N\<close>, and issue exactly one upstream subscribe command, the one issued by
  the first call.
\<close>

theorem C7_subscribe_deduplicated:
  assumes "map_of (subscriptions r) k = None" and "activeCount r < cap" and "1 \<le> N"
  shows "snd (subscribeTimes cap k N r) = map Inr [1..<Suc N]
       \<and> last (snd (subscribeTimes cap k N r)) = Inr N
       \<and> sent (fst (subscribe cap k r)) = sent r @ [SubscribeCommand k]
       \<and> sent (fst (subscribeTimes cap k N r)) = sent r @ [SubscribeCommand k]
       \<and> map_of (subscriptions (fst (subscribeTimes cap k N r))) k = Some N"
proof -
  obtain m where N: "N = Suc m" using assms(3) by (cases N) auto
  let ?r' = "fst (subscribe cap k r)"
  note f = subscribe_first[OF assms(1,2)]
  from subscribeTimes_present[OF f(3), of cap m]
  have p: "snd (subscribeTimes cap k m ?r') = map Inr [Suc 1..<Suc 1 + m]"
    "sent (fst (subscribeTimes cap k m ?r')) = sent ?r'"
    "map_of (subscriptions (fst (subscribeTimes cap k m ?r'))) k = Some (1 + m)"
    by simp_all
  have u: "[1..<Suc N] = 1 # [Suc 1..<Suc 1 + m]"
    unfolding N by (simp add: upt_conv_Cons)
  have s: "snd (subscribeTimes cap k N r) = map Inr [1..<Suc N]"
    unfolding N subscribeTimes_Suc using p(1) f(1) u N by simp
  have "last (map Inr [1..<Suc N]) = (Inr N :: registry_error + nat)"
    using assms(3) by (simp add: last_map)
  then have l: "last (snd (subscribeTimes cap k N r)) = Inr N" using s by simp
  show ?thesis
    using s l f(2) p(2,3) unfolding N subscribeTimes_Suc by simp
qed

theorem C7_subscribe_deduplicated_witness:
  "snd (subscribeTimes 250 (''ticker'', ''BTC-PERP'') 3 emptyRegistry) = [Inr 1, Inr 2, Inr 3]
   \<and> sent (fst (subscribeTimes 250 (''ticker'', ''BTC-PERP'') 3 emptyRegistry))
       = [SubscribeCommand (''ticker'', ''BTC-PERP'')]"
proof -
  have h1: "map_of (subscriptions emptyRegistry) (''ticker'', ''BTC-PERP'') = None"
    by (simp add: emptyRegistry_def)
  have h2: "activeCount emptyRegistry < 250" by (simp add: activeCount_def emptyRegistry_def)
  have h3: "(1::nat) \<le> 3" by simp
  have u: "[1..<Suc 3] = [1, 2, 3]" by (simp add: upt_rec)
  have e: "sent emptyRegistry = []" by (simp add: emptyRegistry_def)
  show ?thesis
    using C7_subscribe_deduplicated[OF h1 h2 h3] u e by simp
qed

section \<open>Properties of the reconnection backoff\<close>

lemma attempt_afterFailures:
  assumes "attempt c = 0"
  shows "attempt (afterFailures maxAttempts n c) = min n maxAttempts"
proof (induction n)
  case 0
  then show ?case using assms by simp
next
  case (Suc n)
  then show ?case by (simp add: reconnectCycle_def min_def)
qed

lemma wait_afterFailures:
  assumes "attempt c = 0"
  shows "snd (reconnectCycle maxAttempts (afterFailures maxAttempts n c))
           = (if n < maxAttempts then Some (min 30000 (1000 * 2 ^ n)) else None)"
    and "maxAttempts \<le> n \<Longrightarrow>
           state (fst (reconnectCycle maxAttempts (afterFailures maxAttempts n c))) = Failed"
  using attempt_afterFailures[OF assms, of maxAttempts n]
  by (simp_all add: reconnectCycle_def backoffMillis_def min_def)

text \<open>
  C4, as stated, fails. With the maximum of 5 attempts that the architecture report
  gives for each WebSocket class, a connection that has failed 5 or 6 times in a row is
  \<open>Failed\<close>: there is no next attempt and no wait of 30 s before it.
\<close>

theorem C4_no_wait_after_maximum_counterexample:
  "snd (reconnectCycle 5 (afterFailures 5 5 \<lparr>state = Connected, attempt = 0\<rparr>)) = None
   \<and> snd (reconnectCycle 5 (afterFailures 5 6 \<lparr>state = Connected, attempt = 0\<rparr>)) = None
   \<and> state (fst (reconnectCycle 5 (afterFailures 5 5 \<lparr>state = Connected, attempt = 0\<rparr>)))
       = Failed"
proof -
  have a: "attempt \<lparr>state = Connected, attempt = 0\<rparr> = 0" by simp
  show ?thesis
    using wait_afterFailures(1)[OF a, of 5 5] wait_afterFailures(1)[OF a, of 5 6]
      wait_afterFailures(2)[OF a, of 5 5]
    by simp
qed

text \<open>
  C4, amended. After \<open>N\<close> consecutive failed retries, the wait before the next retry is
  \<open>min(30 s, 1 s * 2^N)\<close> as long as \<open>N\<close> is below the configured maximum of
  consecutive failures; from the maximum on the connection is \<open>Failed\<close> and there is no
  further retry, so no wait. (With the documented maximum of 5 the waits are 1, 2, 4, 8
  and 16 seconds.) A successful reconnect resets the attempt counter to 0, so that the
  wait after the next loss of the connection is one second again.
\<close>

theorem C4_backoff:
  "(attempt c = 0 \<longrightarrow>
      snd (reconnectCycle maxAttempts (afterFailures maxAttempts N c))
        = (if N < maxAttempts then Some (min 30000 (1000 * 2 ^ N)) else None)
      \<and> (maxAttempts \<le> N \<longrightarrow>
           state (fst (reconnectCycle maxAttempts (afterFailures maxAttempts N c))) = Failed)
      \<and> attempt (reconnectSucceeded (afterFailures maxAttempts N c)) = 0
      \<and> (0 < maxAttempts \<longrightarrow>
           snd (reconnectCycle maxAttempts
                  (reconnectSucceeded (afterFailures maxAttempts N c))) = Some 1000))"
proof (intro impI conjI)
  assume a: "attempt c = 0"
  show "snd (reconnectCycle maxAttempts (afterFailures maxAttempts N c))
        = (if N < maxAttempts then Some (min 30000 (1000 * 2 ^ N)) else None)"
    using a by (rule wait_afterFailures(1))
  show "state (fst (reconnectCycle maxAttempts (afterFailures maxAttempts N c))) = Failed"
    if "maxAttempts \<le> N"
    using a that by (rule wait_afterFailures(2))
  show "attempt (reconnectSucceeded (afterFailures maxAttempts N c)) = 0"
    by (simp add: reconnectSucceeded_def)
  show "snd (reconnectCycle maxAttempts
                  (reconnectSucceeded (afterFailures maxAttempts N c))) = Some 1000"
    if "0 < maxAttempts"
    using that by (simp add: reconnectCycle_def reconnectSucceeded_def backoffMillis_def)
qed

theorem C4_backoff_witness:
  "map (\<lambda>N. snd (reconnectCycle 5 (afterFailures 5 N \<lparr>state = Connected, attempt = 0\<rparr>)))
       [0, 1, 2, 3, 4, 5, 6]
     = [Some 1000, Some 2000, Some 4000, Some 8000, Some 16000, None, None]
   \<and> snd (reconnectCycle 5 (reconnectSucceeded
        (afterFailures 5 4 \<lparr>state = Connected, attempt = 0\<rparr>))) = Some 1000"
proof -
  have a: "attempt \<lparr>state = Connected, attempt = 0\<rparr> = 0" by simp
  note t = C4_backoff[where c = "\<lparr>state = Connected, attempt = 0\<rparr>" and maxAttempts = 5]
  show ?thesis
    using t[of 0] t[of 1] t[of 2] t[of 3] t[of 4] t[of 5] t[of 6] a by simp
qed

end
